theory Spec2Isabelle
  imports Complex_Main
begin

section \<open>Data model of \<open>ai_diffusion/model.py\<close>\<close>

text \<open>
  The embedding follows \<open>model.py\<close>. A method \<open>Model.f\<close> or \<open>LiveWorkspace.f\<close> becomes
  the function \<open>f\<close> on the state record; a method whose Python name starts with an
  underscore (\<open>_generate\<close>) is written with the prefix \<open>priv_\<close> (\<open>priv_generate\<close>).
  Python's unbounded integers are \<open>int\<close>. A strength is a Python float that the code
  only compares with \<open>1\<close> (\<open>==\<close>, \<open><\<close>); it is modelled by its exact value as a
  \<open>real\<close> (NaN is not modelled).

  A coroutine that the code hands to \<open>eventloop.run\<close> does not run at once: the call adds
  it to the \<open>tasks\<close> of the state, and \<open>run_task\<close> runs it later, to its end. Signals
  that only notify the user interface are left out; the connections that \<open>model.py\<close>
  makes to its own methods are calls (\<open>job_finished\<close> to \<open>handle_job_finished\<close>,
  \<open>selection_changed\<close> to \<open>update_preview\<close>); an exception of \<open>update_preview\<close> stays
  with the slot. Not embedded, since no property below concerns them: \<open>apply_result\<close>,
  \<open>save_result\<close>, \<open>copy_result_to_layer\<close>, \<open>generate_seed\<close> and the constructors.
\<close>

datatype Workspace = Workspace_generation | Workspace_upscaling | Workspace_live

datatype JobKind = JobKind_diffusion | JobKind_control_layer | JobKind_upscaling | JobKind_live_preview

datatype JobState = JobState_queued | JobState_executing | JobState_finished | JobState_cancelled

datatype ClientEvent =
  ClientEvent_progress | ClientEvent_finished | ClientEvent_interrupted | ClientEvent_error

datatype ControlMode = ControlMode_reference | ControlMode_blur | ControlMode_pose | ControlMode_other

datatype SDVersion = SDVersion_sd15 | SDVersion_sdxl

text \<open>Exceptions. A \<open>NetworkError\<close> carries its message, url and status code (the code as
  the text that an f-string prints).\<close>

datatype error =
  AssertionError string
  | IndexError
  | NetworkError string string string
  | Exception string

text \<open>What a call returns: normally, or by raising. The state reached is kept in both
  cases, since a Python exception does not undo the assignments made before it.\<close>

datatype 's outcome = Return 's | Raise error 's

fun state_of :: "'s outcome \<Rightarrow> 's" where
  "state_of (Return s) = s"
| "state_of (Raise e s) = s"

fun raised :: "'s outcome \<Rightarrow> error option" where
  "raised (Return s) = None"
| "raised (Raise e s) = Some e"

datatype Extent = Extent (extent_width: int) (extent_height: int)

datatype Bounds = Bounds (bounds_x: int) (bounds_y: int) (bounds_width: int) (bounds_height: int)

definition bounds_extent :: "Bounds \<Rightarrow> Extent" where
  "bounds_extent b = Extent (bounds_width b) (bounds_height b)"

definition bounds_at_origin :: "Extent \<Rightarrow> Bounds" where
  \<comment> \<open>\<open>Bounds(0, 0, *extent)\<close>\<close>
  "bounds_at_origin e = Bounds 0 0 (extent_width e) (extent_height e)"

text \<open>Images, styles, layer nodes of the host and control images are opaque handles.\<close>

datatype Image = Image nat

datatype Style = Style nat

datatype Node = Node nat

record Mask =
  mask_bounds :: Bounds
  mask_image :: nat

record Conditioning =
  cond_prompt :: string
  cond_negative_prompt :: string
  cond_control :: "nat list"
  cond_area :: "Bounds option"

record ControlLayer =
  control_ref :: nat
  control_mode :: ControlMode
  control_layer :: Node
  control_layer_id :: "Node option"

subsection \<open>Work items\<close>

text \<open>
  Modelled from the spec: the workflow builder (\<open>workflow.py\<close> is not part of the
  sources). Section 6 gives its contract,
  \<open>buildGenerate/refine/inpaint/refineRegion(style, extent|image, mask?, conditioning,
  strength, seed, isLive) -> WorkItem\<close>, pure and deterministic; section 4.3 has the first
  item of a batch carry the base seed. A work item is therefore the record of the builder
  that made it and of the arguments it was given, with the seed as the one field that
  \<open>_generate\<close> assigns afterwards (\<open>job.seed = ...\<close>).
\<close>

datatype WorkKind =
  work_generate Extent
  | work_refine Image real
  | work_inpaint Image Mask
  | work_refine_region Image Mask real
  | work_upscale_tiled Image string real real
  | work_upscale_simple Image string real
  | work_control_image Image ControlMode "Bounds option"

record WorkItem =
  work_kind :: WorkKind
  work_style :: "Style option"
  work_cond :: "Conditioning option"
  work_seed :: int
  work_is_live :: bool

definition workflow_generate ::
  "Style \<Rightarrow> Extent \<Rightarrow> Conditioning \<Rightarrow> int \<Rightarrow> bool \<Rightarrow> WorkItem" where
  "workflow_generate sty extent cond sd is_live =
     \<lparr>work_kind = work_generate extent, work_style = Some sty, work_cond = Some cond,
      work_seed = sd, work_is_live = is_live\<rparr>"

definition workflow_refine ::
  "Style \<Rightarrow> Image \<Rightarrow> Conditioning \<Rightarrow> real \<Rightarrow> int \<Rightarrow> bool \<Rightarrow> WorkItem" where
  "workflow_refine sty img cond str sd is_live =
     \<lparr>work_kind = work_refine img str, work_style = Some sty, work_cond = Some cond,
      work_seed = sd, work_is_live = is_live\<rparr>"

definition workflow_inpaint ::
  "Style \<Rightarrow> Image \<Rightarrow> Mask \<Rightarrow> Conditioning \<Rightarrow> int \<Rightarrow> WorkItem" where
  "workflow_inpaint sty img msk cond sd =
     \<lparr>work_kind = work_inpaint img msk, work_style = Some sty, work_cond = Some cond,
      work_seed = sd, work_is_live = False\<rparr>"

definition workflow_refine_region ::
  "Style \<Rightarrow> Image \<Rightarrow> Mask \<Rightarrow> Conditioning \<Rightarrow> real \<Rightarrow> int \<Rightarrow> bool \<Rightarrow> WorkItem" where
  "workflow_refine_region sty img msk cond str sd is_live =
     \<lparr>work_kind = work_refine_region img msk str, work_style = Some sty,
      work_cond = Some cond, work_seed = sd, work_is_live = is_live\<rparr>"

definition workflow_upscale_tiled ::
  "Image \<Rightarrow> string \<Rightarrow> real \<Rightarrow> Style \<Rightarrow> real \<Rightarrow> int \<Rightarrow> WorkItem" where
  "workflow_upscale_tiled img ups fac sty str sd =
     \<lparr>work_kind = work_upscale_tiled img ups fac str, work_style = Some sty,
      work_cond = None, work_seed = sd, work_is_live = False\<rparr>"

definition workflow_upscale_simple :: "Image \<Rightarrow> string \<Rightarrow> real \<Rightarrow> WorkItem" where
  "workflow_upscale_simple img ups fac =
     \<lparr>work_kind = work_upscale_simple img ups fac, work_style = None,
      work_cond = None, work_seed = 0, work_is_live = False\<rparr>"

definition workflow_create_control_image ::
  "Image \<Rightarrow> ControlMode \<Rightarrow> Bounds option \<Rightarrow> WorkItem" where
  "workflow_create_control_image img mode bnds =
     \<lparr>work_kind = work_control_image img mode bnds, work_style = None,
      work_cond = None, work_seed = 0, work_is_live = False\<rparr>"

text \<open>The mask that a work item was built with.\<close>

definition work_mask :: "WorkItem \<Rightarrow> Mask option" where
  "work_mask w =
     (case work_kind w of
        work_inpaint i m \<Rightarrow> Some m
      | work_refine_region i m v \<Rightarrow> Some m
      | _ \<Rightarrow> None)"

subsection \<open>Jobs and the job queue\<close>

record JobParams =
  params_bounds :: Bounds
  params_prompt :: string
  params_negative_prompt :: string
  params_strength :: real
  params_seed :: int

text \<open>A \<open>Job\<close> is a mutable Python object: \<open>job_ref\<close> is its identity, which no
  assignment changes. The id is \<open>None\<close> until the remote worker has assigned one.\<close>

record Job =
  job_ref :: nat
  job_id :: "string option"
  job_kind :: JobKind
  job_state :: JobState
  job_params :: JobParams
  job_control :: "ControlLayer option"
  job_results :: "Image list"

record JobQueue =
  entries :: "Job list"
  selection :: "(string \<times> int) option"
  next_ref :: nat

text \<open>
  Modelled from the spec: the operations of \<open>JobQueue\<close> (\<open>jobs.py\<close> is not part of the
  sources). Section 3: a job has a kind, an id, the request's parameters, a result
  sequence that is empty until the job finishes, and a state that starts as queued.
  The prompt of a control-layer or upscaling job is a label for the layer it will make.
  Section 4.3: every dispatched job is inserted into the job collection in submission
  order. Section 4.4: a progress event moves a queued job to executing, a finished event
  attaches the images and moves the job to finished, an interruption or an error moves
  it to cancelled; an event is routed to the job with its id.
\<close>

definition new_job :: "nat \<Rightarrow> string option \<Rightarrow> JobKind \<Rightarrow> JobParams \<Rightarrow> Job" where
  "new_job r i k p =
     \<lparr>job_ref = r, job_id = i, job_kind = k, job_state = JobState_queued, job_params = p,
      job_control = None, job_results = []\<rparr>"

definition jobs_append :: "Job \<Rightarrow> JobQueue \<Rightarrow> JobQueue" where
  "jobs_append j q = q\<lparr>entries := entries q @ [j], next_ref := Suc (next_ref q)\<rparr>"

definition jobs_add ::
  "JobKind \<Rightarrow> string \<Rightarrow> string \<Rightarrow> string \<Rightarrow> Bounds \<Rightarrow> real \<Rightarrow> int \<Rightarrow> JobQueue \<Rightarrow> JobQueue" where
  "jobs_add k i pos neg bnds str sd q =
     jobs_append
       (new_job (next_ref q) (Some i) k
          \<lparr>params_bounds = bnds, params_prompt = pos, params_negative_prompt = neg,
           params_strength = str, params_seed = sd\<rparr>) q"

definition jobs_add_control :: "ControlLayer \<Rightarrow> Bounds \<Rightarrow> JobQueue \<Rightarrow> Job \<times> JobQueue" where
  "jobs_add_control c bnds q =
     (let j = (new_job (next_ref q) None JobKind_control_layer
                 \<lparr>params_bounds = bnds, params_prompt = ''[Control]'',
                  params_negative_prompt = [], params_strength = 1, params_seed = 0\<rparr>)
               \<lparr>job_control := Some c\<rparr>
      in (j, jobs_append j q))"

definition jobs_add_upscale :: "Bounds \<Rightarrow> int \<Rightarrow> JobQueue \<Rightarrow> Job \<times> JobQueue" where
  "jobs_add_upscale bnds sd q =
     (let j = new_job (next_ref q) None JobKind_upscaling
                \<lparr>params_bounds = bnds, params_prompt = ''[Upscale]'',
                 params_negative_prompt = [], params_strength = 1, params_seed = sd\<rparr>
      in (j, jobs_append j q))"

definition jobs_find :: "string \<Rightarrow> JobQueue \<Rightarrow> Job option" where
  "jobs_find i q = List.find (\<lambda>j. job_id j = Some i) (entries q)"

definition any_executing :: "JobQueue \<Rightarrow> bool" where
  "any_executing q = list_ex (\<lambda>j. job_state j = JobState_executing) (entries q)"

definition jobs_put :: "Job \<Rightarrow> JobQueue \<Rightarrow> JobQueue" where
  \<comment> \<open>an assignment to a field of the job object shows in the queue that holds it\<close>
  "jobs_put j q = q\<lparr>entries := map (\<lambda>k. if job_ref k = job_ref j then j else k) (entries q)\<rparr>"

definition jobs_remove :: "Job \<Rightarrow> JobQueue \<Rightarrow> JobQueue" where
  "jobs_remove j q = q\<lparr>entries := remove1 j (entries q)\<rparr>"

subsection \<open>The connection to the remote worker\<close>

text \<open>
  Modelled from the spec: the remote worker client (\<open>connection.py\<close> and \<open>client.py\<close>
  are not part of the sources). Section 6: \<open>enqueue(WorkItem) -> JobId\<close> may fail with a
  network error; \<open>interrupt()\<close>; \<open>clearQueue()\<close>. The calls made are recorded in order.
  \<open>respond n\<close> is the worker's answer to the enqueue call that \<open>n\<close> calls preceded.
\<close>

record Connection =
  enqueue_calls :: "WorkItem list"
  respond :: "nat \<Rightarrow> error + string"
  clear_queue_calls :: nat
  interrupt_calls :: nat

definition client_enqueue :: "WorkItem \<Rightarrow> Connection \<Rightarrow> (error + string) \<times> Connection" where
  "client_enqueue w c =
     (respond c (length (enqueue_calls c)), c\<lparr>enqueue_calls := enqueue_calls c @ [w]\<rparr>)"

definition clear_queue :: "Connection \<Rightarrow> Connection" where
  "clear_queue c = c\<lparr>clear_queue_calls := Suc (clear_queue_calls c)\<rparr>"

definition interrupt :: "Connection \<Rightarrow> Connection" where
  "interrupt c = c\<lparr>interrupt_calls := Suc (interrupt_calls c)\<rparr>"

subsection \<open>The host document\<close>

text \<open>
  Modelled from the spec: the host document (\<open>document.py\<close> and the \<open>krita\<close> module are
  not part of the sources; section 6 lists the interface). The document is an external
  collaborator: what it answers is a field of the record, and each call that changes the
  host is appended to \<open>doc_calls\<close>, in the order the calls are made. A node is detached
  when its \<open>parentNode()\<close> is \<open>None\<close>. Successive calls of \<open>hasKeyframeAtTime\<close> are
  answered by the successive entries of \<open>doc_keyframe_answers\<close>; once they are used up
  the host answers \<open>False\<close>.
\<close>

datatype DocCall =
  call_insert_layer Node string "(Image \<times> Bounds) option" bool "Node option"
  | call_insert_vector_layer Node string nat Extent
  | call_set_layer_content Node Image Bounds
  | call_move_to_top Node
  | call_hide_layer Node
  | call_resize Extent
  | call_setName Node string
  | call_setLocked Node bool
  | call_remove Node
  | call_enableAnimation Node
  | call_setPinnedToTimeline Node bool
  | call_trigger string
  | call_process_events
  | call_hasKeyframeAtTime Node int bool
  | call_set_current_time int
  | call_set_end_time int

text \<open>The arguments of one call of \<open>create_mask_from_selection\<close>; an optional argument
  that the call does not pass is \<open>None\<close>.\<close>

record MaskFromSelectionArgs =
  arg_grow :: real
  arg_feather :: real
  arg_padding :: real
  arg_min_size :: "int option"
  arg_square :: "bool option"
  arg_multiple :: "int option"

record Document =
  doc_extent :: Extent
  doc_check_color_mode :: "bool \<times> string option"
  doc_is_active :: bool
  doc_active_layer :: Node
  doc_node_type :: "Node \<Rightarrow> string"
  doc_detached :: "Node \<Rightarrow> bool"
  doc_next_node :: nat
  doc_current_time :: int
  doc_end_time :: int
  doc_last_keyframe :: "Node \<Rightarrow> int"
  doc_keyframe_answers :: "bool list"
  doc_create_mask_from_layer :: "real \<Rightarrow> bool \<Rightarrow> Mask option \<times> Bounds \<times> Bounds option"
  doc_create_mask_from_selection :: "MaskFromSelectionArgs \<Rightarrow> Mask option \<times> Bounds option"
  doc_get_image :: "Bounds \<Rightarrow> Node list \<Rightarrow> Image"
  doc_calls :: "DocCall list"

definition doc_call :: "DocCall \<Rightarrow> Document \<Rightarrow> Document" where
  "doc_call c d = d\<lparr>doc_calls := doc_calls d @ [c]\<rparr>"

definition insert_layer ::
  "string \<Rightarrow> (Image \<times> Bounds) option \<Rightarrow> bool \<Rightarrow> Node option \<Rightarrow> Document \<Rightarrow> Node \<times> Document" where
  \<comment> \<open>the new layer becomes the active one unless \<open>make_active=False\<close> is passed\<close>
  "insert_layer name content make_active below d =
     (let n = Node (doc_next_node d)
      in (n, doc_call (call_insert_layer n name content make_active below)
               (d\<lparr>doc_next_node := Suc (doc_next_node d),
                  doc_active_layer := (if make_active then n else doc_active_layer d)\<rparr>)))"

definition insert_vector_layer :: "string \<Rightarrow> nat \<Rightarrow> Extent \<Rightarrow> Document \<Rightarrow> Node \<times> Document" where
  "insert_vector_layer name pose extent d =
     (let n = Node (doc_next_node d)
      in (n, doc_call (call_insert_vector_layer n name pose extent)
               (d\<lparr>doc_next_node := Suc (doc_next_node d), doc_active_layer := n\<rparr>)))"

definition set_current_time :: "int \<Rightarrow> Document \<Rightarrow> Document" where
  "set_current_time t d = doc_call (call_set_current_time t) (d\<lparr>doc_current_time := t\<rparr>)"

definition set_end_time :: "int \<Rightarrow> Document \<Rightarrow> Document" where
  "set_end_time t d = doc_call (call_set_end_time t) (d\<lparr>doc_end_time := t\<rparr>)"

definition hasKeyframeAtTime :: "Node \<Rightarrow> int \<Rightarrow> Document \<Rightarrow> bool \<times> Document" where
  "hasKeyframeAtTime n t d =
     (case doc_keyframe_answers d of
        [] \<Rightarrow> (False, doc_call (call_hasKeyframeAtTime n t False) d)
      | a # as \<Rightarrow> (a, doc_call (call_hasKeyframeAtTime n t a) (d\<lparr>doc_keyframe_answers := as\<rparr>)))"

subsection \<open>Settings and library functions\<close>

text \<open>
  The global \<open>settings\<close> object and the functions of modules that are not part of the
  sources (\<open>workflow.compute_bounds\<close>, \<open>workflow.generate_seed\<close>, \<open>Bounds.apply_crop\<close>,
  \<open>Bounds.minimum_size\<close>, \<open>resolve_sd_version\<close>, \<open>ControlLayer.get_image\<close>,
  \<open>util.log_error\<close>, \<open>Extent.__mul__\<close>) are parameters of the model, collected in one
  record. \<open>workflow_generate_seed\<close> is the seed that the random generator draws.
\<close>

record Settings =
  selection_grow :: real
  selection_feather :: real
  selection_padding :: real
  batch_size :: int
  auto_preview :: bool
  new_seed_after_apply :: bool

record Env =
  settings :: Settings
  workflow_compute_bounds :: "Extent \<Rightarrow> Bounds option \<Rightarrow> real \<Rightarrow> Bounds"
  workflow_generate_seed :: int
  Bounds_apply_crop :: "Bounds \<Rightarrow> Bounds \<Rightarrow> Bounds"
  Bounds_minimum_size :: "Bounds \<Rightarrow> int \<Rightarrow> Extent \<Rightarrow> Bounds"
  resolve_sd_version :: "Style \<Rightarrow> SDVersion"
  control_get_image :: "ControlLayer \<Rightarrow> Bounds \<Rightarrow> nat"
  log_error :: "error \<Rightarrow> string"
  image_extent :: "Image \<Rightarrow> Extent"
  extent_times :: "Extent \<Rightarrow> real \<Rightarrow> Extent"
  default_upscaler :: string

subsection \<open>Messages of the remote worker\<close>

text \<open>\<open>ClientMessage\<close> is declared in \<open>client.py\<close>; these are the fields that \<open>model.py\<close>
  reads. An absent image collection is the empty list (the code only tests
  \<open>if message.images\<close>).\<close>

record ClientMessage =
  message_event :: ClientEvent
  message_job_id :: string
  message_progress :: real
  message_images :: "Image list"
  message_result :: "nat option"
  message_error :: string

datatype LogEntry = log_unknown_job ClientMessage

subsection \<open>The model\<close>

record UpscaleParams =
  params_upscaler :: string
  params_factor :: real
  params_use_diffusion :: bool
  params_upscale_strength :: real
  params_target_extent :: Extent
  params_upscale_seed :: int

record UpscaleWorkspace =
  upscaler :: string
  factor :: real
  use_diffusion :: bool
  upscale_strength :: real

record LiveWorkspace =
  is_active :: bool
  is_recording :: bool
  live_strength :: real
  has_result :: bool
  result :: "Image option"
  result_bounds :: "Bounds option"
  recording_layer :: "Node option"
  keyframes :: "(Image \<times> Bounds) list"

text \<open>A coroutine that has been handed to \<open>eventloop.run\<close>, with its arguments (a job
  argument is the identity of the job object).\<close>

datatype Task =
  Task_generate Bounds Conditioning real "Image option" "Mask option" int int bool
  | Task_upscale_image nat Image UpscaleParams
  | Task_generate_control_layer nat Image ControlMode "Bounds option"
  | Task_insert_frames_into_timeline Node "(Image \<times> Bounds) list"

text \<open>
  The state of a \<open>Model\<close> with its \<open>UpscaleWorkspace\<close> and \<open>LiveWorkspace\<close>, the document
  and connection it holds, the coroutines handed to \<open>eventloop.run\<close> (in the order they
  were handed over), the entries written to \<open>util.client_logger\<close>, and the exceptions
  that slots have raised (see \<open>emit_to_slot\<close> below).
\<close>

record Model =
  workspace :: Workspace
  style :: Style
  prompt :: string
  negative_prompt :: string
  control :: "ControlLayer list"
  strength :: real
  batch_count :: int
  seed :: int
  fixed_seed :: bool
  upscale :: UpscaleWorkspace
  live :: LiveWorkspace
  progress :: real
  jobs :: JobQueue
  error :: string
  layer :: "Node option"
  doc :: Document
  connection :: Connection
  tasks :: "Task list"
  client_logger :: "LogEntry list"
  slot_exceptions :: "error list"

definition eventloop_run :: "Task \<Rightarrow> Model \<Rightarrow> Model" where
  "eventloop_run t s = s\<lparr>tasks := tasks s @ [t]\<rparr>"

section \<open>Dispatch: \<open>Model._generate\<close>\<close>

text \<open>Lines 152 to 165 of \<open>_generate\<close>: the branch that picks the workflow builder, with
  the assertion of each branch.\<close>

definition select_workflow ::
  "Style \<Rightarrow> Bounds \<Rightarrow> Conditioning \<Rightarrow> real \<Rightarrow> Image option \<Rightarrow> Mask option \<Rightarrow> int \<Rightarrow> bool
     \<Rightarrow> error + WorkItem" where
  "select_workflow sty bnds cond str img msk sd is_live =
     (if img = None \<and> msk = None then
        (if str = 1 then Inr (workflow_generate sty (bounds_extent bnds) cond sd is_live)
         else Inl (AssertionError []))
      else if msk = None \<and> str < 1 then
        (case img of
           None \<Rightarrow> Inl (AssertionError [])
         | Some i \<Rightarrow> Inr (workflow_refine sty i cond str sd is_live))
      else if str = 1 \<and> \<not> is_live then
        (case img of
           None \<Rightarrow> Inl (AssertionError [])
         | Some i \<Rightarrow>
             (case msk of
                None \<Rightarrow> Inl (AssertionError [])
              | Some m \<Rightarrow> Inr (workflow_inpaint sty i m cond sd)))
      else
        (case img of
           None \<Rightarrow> Inl (AssertionError [])
         | Some i \<Rightarrow>
             (case msk of
                None \<Rightarrow> Inl (AssertionError [])
              | Some m \<Rightarrow> Inr (workflow_refine_region sty i m cond str sd is_live))))"

text \<open>Lines 145 to 150: the bounds of the mask relative to the cropped image.\<close>

definition mask_bounds_rel :: "Mask \<Rightarrow> Bounds \<Rightarrow> Bounds" where
  "mask_bounds_rel m bnds =
     Bounds (bounds_x (mask_bounds m) - bounds_x bnds) (bounds_y (mask_bounds m) - bounds_y bnds)
       (extent_width (bounds_extent (mask_bounds m)))
       (extent_height (bounds_extent (mask_bounds m)))"

text \<open>Lines 169 to 172: the loop \<open>for i in range(count)\<close>, over the remaining values of
  \<open>i\<close>. An exception of \<open>client.enqueue\<close> ends the loop.\<close>

fun enqueue_batch ::
  "Env \<Rightarrow> JobKind \<Rightarrow> string \<Rightarrow> string \<Rightarrow> Bounds \<Rightarrow> real \<Rightarrow> int \<Rightarrow> int list \<Rightarrow> WorkItem \<Rightarrow> Model
     \<Rightarrow> Model outcome" where
  "enqueue_batch env k pos neg bnds str sd [] w s = Return s"
| "enqueue_batch env k pos neg bnds str sd (i # ns) w s =
     (case client_enqueue w (connection s) of
        (Inl e, c) \<Rightarrow> Raise e (s\<lparr>connection := c\<rparr>)
      | (Inr i_d, c) \<Rightarrow>
          enqueue_batch env k pos neg bnds str sd ns
            (w\<lparr>work_seed := sd + (i + 1) * batch_size (settings env)\<rparr>)
            (s\<lparr>connection := c,
               jobs := jobs_add k i_d pos neg bnds str (work_seed w) (jobs s)\<rparr>))"

definition priv_generate ::
  "Env \<Rightarrow> Bounds \<Rightarrow> Conditioning \<Rightarrow> real \<Rightarrow> Image option \<Rightarrow> Mask option \<Rightarrow> int \<Rightarrow> int \<Rightarrow> bool
     \<Rightarrow> Model \<Rightarrow> Model outcome" where
  "priv_generate env bnds cond str img msk sd cnt is_live s =
     (let sty = style s;
          s1 = (if \<not> any_executing (jobs s) then s\<lparr>progress := 0\<rparr> else s);
          bnds1 = (case msk of None \<Rightarrow> bnds | Some m \<Rightarrow> mask_bounds m);
          msk1 = (case msk of
                    None \<Rightarrow> None
                  | Some m \<Rightarrow> Some (m\<lparr>mask_bounds := mask_bounds_rel m bnds\<rparr>))
      in case select_workflow sty bnds1 cond str img msk1 sd is_live of
           Inl e \<Rightarrow> Raise e s1
         | Inr w \<Rightarrow>
             enqueue_batch env (if is_live then JobKind_live_preview else JobKind_diffusion)
               (cond_prompt cond) (cond_negative_prompt cond) bnds1 str sd [0..cnt - 1] w s1)"

section \<open>Requests: \<open>generate_live\<close> and the live workspace\<close>

definition clear_error :: "Model \<Rightarrow> Model" where
  "clear_error s = (if error s \<noteq> [] then s\<lparr>error := []\<rparr> else s)"

definition report_progress :: "real \<Rightarrow> Model \<Rightarrow> Model" where
  "report_progress v s = s\<lparr>progress := v\<rparr>"

definition priv_get_current_image :: "Bounds \<Rightarrow> Model \<Rightarrow> Image" where
  "priv_get_current_image bnds s =
     (let exclude = map control_layer
            (filter (\<lambda>c. control_mode c \<notin> {ControlMode_reference, ControlMode_blur}) (control s));
          exclude1 = (case layer s of None \<Rightarrow> exclude | Some l \<Rightarrow> exclude @ [l])
      in doc_get_image (doc s) bnds exclude1)"

definition generate_live :: "Env \<Rightarrow> Model \<Rightarrow> Model" where
  "generate_live env s =
     (let ver = resolve_sd_version env (style s);
          msk = fst (doc_create_mask_from_selection (doc s)
                  \<lparr>arg_grow = selection_feather (settings env) / 200,
                   arg_feather = selection_feather (settings env) / 100,
                   arg_padding = selection_padding (settings env) / 100,
                   arg_min_size = Some (if ver = SDVersion_sd15 then 512 else 1024),
                   arg_square = Some True, arg_multiple = None\<rparr>);
          bnds = (case msk of None \<Rightarrow> bounds_at_origin (doc_extent (doc s)) | Some m \<Rightarrow> mask_bounds m);
          img = (if msk \<noteq> None \<or> live_strength (live s) < 1
                 then Some (priv_get_current_image bnds s) else None);
          ctrl = map (\<lambda>c. control_get_image env c bnds) (control s);
          cond = \<lparr>cond_prompt = prompt s, cond_negative_prompt = negative_prompt s,
                  cond_control = ctrl, cond_area = None\<rparr>;
          generator = Task_generate bnds cond (live_strength (live s)) img msk (seed s) 1 True
      in eventloop_run generator (clear_error s))"

definition priv_add_recording_layer :: "bool \<Rightarrow> Model \<Rightarrow> Node \<times> Model" where
  "priv_add_recording_layer restore_active s =
     (let rl = (case recording_layer (live s) of
                  None \<Rightarrow> None
                | Some l \<Rightarrow> if doc_detached (doc s) l then None else Some l)
      in case rl of
           Some l \<Rightarrow> (l, s\<lparr>live := (live s)\<lparr>recording_layer := rl\<rparr>\<rparr>)
         | None \<Rightarrow>
             (let d = doc s;
                  saved = doc_active_layer d;
                  (l, d1) = insert_layer (''[Recording] '' @ prompt s) None True
                              (Some (doc_active_layer d)) d;
                  d2 = doc_call (call_enableAnimation l) d1;
                  d3 = doc_call (call_setPinnedToTimeline l True) d2;
                  d4 = (if restore_active then d3\<lparr>doc_active_layer := saved\<rparr> else d3)
              in (l, s\<lparr>live := (live s)\<lparr>recording_layer := Some l\<rparr>, doc := d4\<rparr>)))"

definition priv_insert_frames :: "Model \<Rightarrow> Model" where
  "priv_insert_frames s =
     (if length (keyframes (live s)) > 0 then
        (let (l, s1) = priv_add_recording_layer False s;
             s2 = eventloop_run (Task_insert_frames_into_timeline l (keyframes (live s1))) s1
         in s2\<lparr>live := (live s2)\<lparr>keyframes := []\<rparr>\<rparr>)
      else s)"

text \<open>
  \<open>is_active\<close> and \<open>is_recording\<close> are properties with a setter: the assignment
  \<open>self.is_active = v\<close> is the call \<open>toggle(v)\<close>, and \<open>self.is_recording = v\<close> is
  \<open>toggle_record(v)\<close>; \<open>self._is_active\<close> is the stored flag. The two setters call each
  other. Each call on the way down finds one more of the two flags equal to the argument,
  which bounds the recursion.
\<close>

function toggle :: "Env \<Rightarrow> bool \<Rightarrow> Model \<Rightarrow> Model"
  and toggle_record :: "Env \<Rightarrow> bool \<Rightarrow> Model \<Rightarrow> Model" where
  "toggle env active s =
     (if is_active (live s) \<noteq> active then
        (if active then generate_live env (s\<lparr>live := (live s)\<lparr>is_active := active\<rparr>\<rparr>)
         else toggle_record env False (s\<lparr>live := (live s)\<lparr>is_active := active\<rparr>\<rparr>))
      else s)"
| "toggle_record env active s =
     (if is_recording (live s) \<noteq> active then
        (let s2 = toggle env active (s\<lparr>live := (live s)\<lparr>is_recording := active\<rparr>\<rparr>)
         in if active then snd (priv_add_recording_layer True s2) else priv_insert_frames s2)
      else s)"
  by pat_completeness auto
termination
  by (relation "measure (\<lambda>x. case x of
          Inl (env, a, s) \<Rightarrow> (if is_active (live s) = a then 0 else 1)
                             + (if is_recording (live s) = a then 0 else 1)
        | Inr (env, a, s) \<Rightarrow> (if is_active (live s) = a then 0 else 1)
                             + (if is_recording (live s) = a then 0 else 1))")
    auto

definition report_error :: "Env \<Rightarrow> string \<Rightarrow> Model \<Rightarrow> Model" where
  "report_error env message s = toggle env False (s\<lparr>error := message\<rparr>)"

definition set_result :: "Image \<Rightarrow> Bounds \<Rightarrow> Model \<Rightarrow> Model" where
  "set_result v bnds s =
     (let lv = (live s)\<lparr>result := Some v, result_bounds := Some bnds, has_result := True\<rparr>
      in s\<lparr>live := (if is_recording lv then lv\<lparr>keyframes := keyframes lv @ [(v, bnds)]\<rparr> else lv)\<rparr>)"

definition handle_job_finished :: "Env \<Rightarrow> Job \<Rightarrow> Model \<Rightarrow> Model" where
  "handle_job_finished env job s =
     (if job_kind job = JobKind_live_preview then
        (let s1 = (if length (job_results job) > 0
                   then set_result (hd (job_results job)) (params_bounds (job_params job)) s
                   else s);
             s2 = toggle env (is_active (live s1) \<and> doc_is_active (doc s1)) s1
         in if is_active (live s2) then generate_live env s2 else s2)
      else s)"

definition set_workspace :: "Env \<Rightarrow> Workspace \<Rightarrow> Model \<Rightarrow> Model" where
  "set_workspace env w s =
     (let s1 = (if workspace s = Workspace_live then toggle env False s else s)
      in s1\<lparr>workspace := w\<rparr>)"

text \<open>\<open>_report_errors(parent, coro)\<close>, applied to what running the coroutine gave.\<close>

fun priv_report_errors :: "Env \<Rightarrow> Model outcome \<Rightarrow> Model" where
  "priv_report_errors env (Return s) = s"
| "priv_report_errors env (Raise (NetworkError m url code) s) =
     report_error env
       (log_error env (NetworkError m url code) @ '' [url='' @ url @ '', code='' @ code @ '']'') s"
| "priv_report_errors env (Raise e s) = report_error env (log_error env e) s"

section \<open>Requests: \<open>generate\<close>, \<open>upscale_image\<close>, \<open>generate_control_layer\<close>\<close>

definition generate :: "Env \<Rightarrow> Model \<Rightarrow> Model" where
  "generate env s =
     (case doc_check_color_mode (doc s) of (ok, msg) \<Rightarrow>
        if \<not> ok \<and> msg \<noteq> None \<and> msg \<noteq> Some [] then report_error env (the msg) s
        else
          (let extent = doc_extent (doc s);
               (msk, image_bounds, selection_bounds) =
                 (if doc_node_type (doc s) (doc_active_layer (doc s)) = ''selectionmask'' then
                    doc_create_mask_from_layer (doc s) (selection_padding (settings env) / 100)
                      (strength s = 1)
                  else
                    (let (m, sel) = doc_create_mask_from_selection (doc s)
                           \<lparr>arg_grow = selection_grow (settings env) / 100,
                            arg_feather = selection_feather (settings env) / 100,
                            arg_padding = selection_padding (settings env) / 100,
                            arg_min_size = Some 64, arg_square = None, arg_multiple = None\<rparr>
                     in (m, workflow_compute_bounds env extent (map_option mask_bounds m)
                              (strength s), sel)));
               img = (if msk \<noteq> None \<or> strength s < 1
                      then Some (priv_get_current_image image_bounds s) else None);
               selection_bounds1 =
                 (case selection_bounds of
                    None \<Rightarrow> None
                  | Some sb \<Rightarrow>
                      Some (Bounds_minimum_size env (Bounds_apply_crop env sb image_bounds) 64
                              (bounds_extent image_bounds)));
               ctrl = map (\<lambda>c. control_get_image env c image_bounds) (control s);
               cond = \<lparr>cond_prompt = prompt s, cond_negative_prompt = negative_prompt s,
                       cond_control = ctrl,
                       cond_area = (if strength s = 1 then selection_bounds1 else None)\<rparr>;
               sd = (if fixed_seed s then seed s else workflow_generate_seed env);
               generator = Task_generate image_bounds cond (strength s) img msk sd
                             (batch_count s) False
           in eventloop_run generator (clear_error s)))"

definition target_extent :: "Env \<Rightarrow> Model \<Rightarrow> Extent" where
  "target_extent env s = extent_times env (doc_extent (doc s)) (factor (upscale s))"

definition upscale_params :: "Env \<Rightarrow> Model \<Rightarrow> UpscaleParams" where
  "upscale_params env s =
     \<lparr>params_upscaler = upscaler (upscale s), params_factor = factor (upscale s),
      params_use_diffusion = use_diffusion (upscale s),
      params_upscale_strength = upscale_strength (upscale s),
      params_target_extent = target_extent env s,
      params_upscale_seed = (if fixed_seed s then seed s else workflow_generate_seed env)\<rparr>"

definition upscale_image :: "Env \<Rightarrow> Model \<Rightarrow> Model" where
  "upscale_image env s =
     (let params = upscale_params env s;
          img = doc_get_image (doc s) (bounds_at_origin (doc_extent (doc s))) [];
          (job, q) = jobs_add_upscale (bounds_at_origin (target_extent env s))
                       (params_upscale_seed params) (jobs s);
          s1 = s\<lparr>jobs := q\<rparr>
      in eventloop_run (Task_upscale_image (job_ref job) img params) (clear_error s1))"

definition generate_control_layer :: "Env \<Rightarrow> ControlLayer \<Rightarrow> Model \<Rightarrow> Model" where
  "generate_control_layer env c s =
     (case doc_check_color_mode (doc s) of (ok, msg) \<Rightarrow>
        if \<not> ok \<and> msg \<noteq> None \<and> msg \<noteq> Some [] then report_error env (the msg) s
        else
          (let img = doc_get_image (doc s) (bounds_at_origin (doc_extent (doc s))) [];
               msk = fst (doc_create_mask_from_selection (doc s)
                       \<lparr>arg_grow = 0, arg_feather = 0, arg_padding = 0.25,
                        arg_min_size = None, arg_square = None, arg_multiple = Some 64\<rparr>);
               bnds = map_option mask_bounds msk;
               (job, q) = jobs_add_control c (bounds_at_origin (image_extent env img)) (jobs s);
               s1 = s\<lparr>jobs := q\<rparr>;
               generator = Task_generate_control_layer (job_ref job) img (control_mode c) bnds
           in eventloop_run generator (clear_error s1)))"

text \<open>The two coroutines that assign the id of a job that is already in the queue:
  \<open>job.id = await client.enqueue(work)\<close>.\<close>

definition enqueue_for_job :: "nat \<Rightarrow> WorkItem \<Rightarrow> Model \<Rightarrow> Model outcome" where
  "enqueue_for_job r w s =
     (case client_enqueue w (connection s) of
        (Inl e, c) \<Rightarrow> Raise e (s\<lparr>connection := c\<rparr>)
      | (Inr i_d, c) \<Rightarrow>
          Return (s\<lparr>connection := c,
                    jobs := (jobs s)\<lparr>entries :=
                      map (\<lambda>j. if job_ref j = r then j\<lparr>job_id := Some i_d\<rparr> else j)
                        (entries (jobs s))\<rparr>\<rparr>))"

definition priv_upscale_image :: "Env \<Rightarrow> nat \<Rightarrow> Image \<Rightarrow> UpscaleParams \<Rightarrow> Model \<Rightarrow> Model outcome" where
  "priv_upscale_image env r img params s =
     (let ups = (if params_upscaler params \<noteq> [] then params_upscaler params
                 else default_upscaler env);
          work = (if params_use_diffusion params then
                    workflow_upscale_tiled img ups (params_factor params) (style s)
                      (params_upscale_strength params) (params_upscale_seed params)
                  else workflow_upscale_simple img (params_upscaler params) (params_factor params))
      in enqueue_for_job r work s)"

definition priv_generate_control_layer ::
  "nat \<Rightarrow> Image \<Rightarrow> ControlMode \<Rightarrow> Bounds option \<Rightarrow> Model \<Rightarrow> Model outcome" where
  "priv_generate_control_layer r img mode bnds s =
     enqueue_for_job r (workflow_create_control_image img mode bnds) s"

section \<open>Cancelling\<close>

definition cancel :: "bool \<Rightarrow> bool \<Rightarrow> Model \<Rightarrow> Model" where
  "cancel active queued s =
     (let s1 = (if queued then
                  (let to_remove = filter (\<lambda>job. job_state job = JobState_queued) (entries (jobs s))
                   in if length to_remove > 0 then
                        (let s0 = s\<lparr>connection := clear_queue (connection s)\<rparr>
                         in s0\<lparr>jobs := fold jobs_remove to_remove (jobs s0)\<rparr>)
                      else s)
                else s)
      in if active \<and> any_executing (jobs s1) then s1\<lparr>connection := interrupt (connection s1)\<rparr>
         else s1)"

section \<open>Previews and result layers\<close>

definition py_index :: "'a list \<Rightarrow> int \<Rightarrow> error + 'a" where
  \<comment> \<open>\<open>xs[i]\<close>: a negative index counts from the end, an index out of range raises\<close>
  "py_index xs i =
     (let n = int (length xs); k = (if i < 0 then n + i else i)
      in if 0 \<le> k \<and> k < n then Inr (xs ! nat k) else Inl IndexError)"

definition show_preview :: "string \<Rightarrow> int \<Rightarrow> Model \<Rightarrow> Model outcome" where
  "show_preview i_d index s =
     (case jobs_find i_d (jobs s) of
        None \<Rightarrow> Raise (AssertionError ''Cannot show preview, invalid job id'') s
      | Some job \<Rightarrow>
          (let name = ''[Preview] '' @ params_prompt (job_params job);
               s1 = (case layer s of
                       None \<Rightarrow> s
                     | Some l \<Rightarrow> if doc_detached (doc s) l then s\<lparr>layer := None\<rparr> else s)
           in case layer s1 of
                Some l \<Rightarrow>
                  (let s2 = s1\<lparr>doc := doc_call (call_setName l name) (doc s1)\<rparr>
                   in case py_index (job_results job) index of
                        Inl e \<Rightarrow> Raise e s2
                      | Inr img \<Rightarrow>
                          Return (s2\<lparr>doc :=
                            doc_call (call_move_to_top l)
                              (doc_call (call_set_layer_content l img (params_bounds (job_params job)))
                                 (doc s2))\<rparr>))
              | None \<Rightarrow>
                  (case py_index (job_results job) index of
                     Inl e \<Rightarrow> Raise e s1
                   | Inr img \<Rightarrow>
                       (let (l, d) = insert_layer name
                                       (Some (img, params_bounds (job_params job))) False None (doc s1)
                        in Return (s1\<lparr>layer := Some l, doc := doc_call (call_setLocked l True) d\<rparr>)))))"

definition hide_preview :: "Model \<Rightarrow> Model" where
  "hide_preview s =
     (case layer s of
        None \<Rightarrow> s
      | Some l \<Rightarrow> s\<lparr>doc := doc_call (call_hide_layer l) (doc s)\<rparr>)"

definition update_preview :: "Model \<Rightarrow> Model outcome" where
  "update_preview s =
     (case selection (jobs s) of
        Some (job, img) \<Rightarrow> show_preview job img s
      | None \<Rightarrow> Return (hide_preview s))"

text \<open>
  A slot that a signal calls. PyQt5 does not pass an exception of a slot on to the code
  that emitted the signal: \<open>emit\<close> returns normally, and the exception goes to
  \<open>sys.excepthook\<close> (without a hook PyQt5 aborts the process inside the slot dispatch).
  The assignments that the slot made before it raised stay; the exception is recorded in
  \<open>slot_exceptions\<close>.
\<close>

fun emit_to_slot :: "Model outcome \<Rightarrow> Model" where
  "emit_to_slot (Return s) = s"
| "emit_to_slot (Raise e s) = s\<lparr>slot_exceptions := slot_exceptions s @ [e]\<rparr>"

text \<open>
  Modelled from the spec: \<open>JobQueue.select\<close> (\<open>jobs.py\<close> is not part of the sources).
  Section 4.4: the first result is selected for preview. The selection becomes the pair
  of the job id and the image index, and a change of the selection is signalled on
  \<open>selection_changed\<close>, which line 80 of \<open>model.py\<close> connects to the slot
  \<open>update_preview\<close> (\<open>apply_result\<close> relies on the preview layer being there when
  \<open>select\<close> has returned).
\<close>

definition jobs_select :: "string \<Rightarrow> int \<Rightarrow> Model \<Rightarrow> Model" where
  "jobs_select i_d index s =
     (if selection (jobs s) \<noteq> Some (i_d, index)
      then emit_to_slot (update_preview (s\<lparr>jobs := (jobs s)\<lparr>selection := Some (i_d, index)\<rparr>\<rparr>))
      else s)"

definition add_control_layer :: "Job \<Rightarrow> nat option \<Rightarrow> Model \<Rightarrow> error + Node \<times> Model" where
  "add_control_layer job res s =
     (if job_kind job \<noteq> JobKind_control_layer then Inl (AssertionError [])
      else
        (case job_control job of
           None \<Rightarrow> Inl (AssertionError [])
         | Some c \<Rightarrow>
             (case (if control_mode c = ControlMode_pose then res else None) of
                Some pose \<Rightarrow>
                  (case insert_vector_layer (params_prompt (job_params job)) pose
                          (bounds_extent (params_bounds (job_params job))) (doc s) of
                     (l, d) \<Rightarrow> Inr (l, s\<lparr>doc := d\<rparr>))
              | None \<Rightarrow>
                  if length (job_results job) > 0 then
                    (case insert_layer (params_prompt (job_params job))
                            (Some (hd (job_results job), params_bounds (job_params job)))
                            True None (doc s) of
                       (l, d) \<Rightarrow> Inr (l, s\<lparr>doc := d\<rparr>))
                  else Inr (doc_active_layer (doc s), s))))"

definition add_upscale_layer :: "Job \<Rightarrow> Model \<Rightarrow> Model outcome" where
  "add_upscale_layer job s =
     (if job_kind job \<noteq> JobKind_upscaling then Raise (AssertionError []) s
      else if \<not> length (job_results job) > 0
        then Raise (AssertionError ''Upscaling job did not produce an image'') s
      else
        (let s1 = (case layer s of
                     None \<Rightarrow> s
                   | Some l \<Rightarrow> s\<lparr>layer := None, doc := doc_call (call_remove l) (doc s)\<rparr>);
             d = doc_call (call_resize (bounds_extent (params_bounds (job_params job)))) (doc s1);
             (l, d1) = insert_layer (params_prompt (job_params job))
                         (Some (hd (job_results job), params_bounds (job_params job))) True None d
         in Return (s1\<lparr>doc := d1\<rparr>)))"

section \<open>Events of the remote worker: \<open>handle_message\<close>\<close>

definition put_job :: "Job \<Rightarrow> Model \<Rightarrow> Model" where
  "put_job j s = s\<lparr>jobs := jobs_put j (jobs s)\<rparr>"

definition put_control :: "ControlLayer \<Rightarrow> Model \<Rightarrow> Model" where
  "put_control c s =
     s\<lparr>control := map (\<lambda>k. if control_ref k = control_ref c then c else k) (control s)\<rparr>"

text \<open>Lines 278 to 290, the branch of a finished event. \<open>job\<close> is the job object as it
  is when the branch is entered; each assignment to one of its fields gives the next
  value of the object, which is written back to the queue. \<open>notify_finished\<close> sets the
  state and emits \<open>job_finished\<close>, which \<open>LiveWorkspace.__init__\<close> connects to
  \<open>handle_job_finished\<close>. The layer id of a node is the node.\<close>

definition finished_post_processing ::
  "ClientMessage \<Rightarrow> Job \<Rightarrow> Model \<Rightarrow> (Job \<times> Model) outcome" where
  "finished_post_processing message job s =
     (if job_kind job = JobKind_control_layer then
        (case job_control job of
           None \<Rightarrow> Raise (AssertionError []) (job, s)
         | Some c \<Rightarrow>
             (case add_control_layer job (message_result message) s of
                Inl e \<Rightarrow> Raise e (job, s)
              | Inr (l, s1) \<Rightarrow>
                  (let c1 = c\<lparr>control_layer_id := Some l\<rparr>;
                       job1 = job\<lparr>job_control := Some c1\<rparr>
                   in Return (job1, put_job job1 (put_control c1 s1)))))
      else if job_kind job = JobKind_upscaling then
        (case add_upscale_layer job s of
           Raise e s1 \<Rightarrow> Raise e (job, s1)
         | Return s1 \<Rightarrow> Return (job, s1))
      else Return (job, s))"

definition handle_finished :: "Env \<Rightarrow> ClientMessage \<Rightarrow> Job \<Rightarrow> Model \<Rightarrow> Model outcome" where
  "handle_finished env message job s =
     (let job1 = (if message_images message \<noteq> []
                  then job\<lparr>job_results := message_images message\<rparr> else job);
          s1 = put_job job1 s
      in case finished_post_processing message job1 s1 of
           Raise e (job2, s2) \<Rightarrow> Raise e s2
         | Return (job2, s2) \<Rightarrow>
             (let job3 = job2\<lparr>job_state := JobState_finished\<rparr>;
                  s3 = put_job job3 (s2\<lparr>progress := 1\<rparr>);
                  s4 = handle_job_finished env job3 s3
              in if job_kind job3 \<noteq> JobKind_diffusion
                 then Return (s4\<lparr>jobs := jobs_remove job3 (jobs s4)\<rparr>)
                 else
                   (case job_id job3 of
                      None \<Rightarrow> Return s4
                    | Some i_d \<Rightarrow>
                        if auto_preview (settings env) \<and> layer s4 = None \<and> i_d \<noteq> []
                        then Return (jobs_select i_d 0 s4) else Return s4)))"

definition notify_started :: "Job \<Rightarrow> Model \<Rightarrow> Model" where
  "notify_started job s =
     (if job_state job \<noteq> JobState_executing
      then put_job (job\<lparr>job_state := JobState_executing\<rparr>) s else s)"

definition notify_cancelled :: "Job \<Rightarrow> Model \<Rightarrow> Model" where
  "notify_cancelled job s = put_job (job\<lparr>job_state := JobState_cancelled\<rparr>) s"

definition handle_message :: "Env \<Rightarrow> ClientMessage \<Rightarrow> Model \<Rightarrow> Model outcome" where
  "handle_message env message s =
     (case jobs_find (message_job_id message) (jobs s) of
        None \<Rightarrow> Return (s\<lparr>client_logger := client_logger s @ [log_unknown_job message]\<rparr>)
      | Some job \<Rightarrow>
          (case message_event message of
             ClientEvent_progress \<Rightarrow>
               Return (report_progress (message_progress message) (notify_started job s))
           | ClientEvent_finished \<Rightarrow> handle_finished env message job s
           | ClientEvent_interrupted \<Rightarrow> Return (report_progress 0 (notify_cancelled job s))
           | ClientEvent_error \<Rightarrow>
               Return (report_error env (''Server execution error: '' @ message_error message)
                         (notify_cancelled job s))))"

section \<open>Recording: draining the keyframe buffer\<close>

text \<open>
  \<open>eventloop.wait_until(lambda: layer.hasKeyframeAtTime(doc.current_time))\<close> asks the host
  again and again until it confirms the keyframe. Nothing bounds the number of polls, so
  the wait is a partial function: \<open>None\<close> stands for a wait that never returns.
\<close>

partial_function (option) wait_until_keyframe :: "Node \<Rightarrow> Document \<Rightarrow> Document option" where
  "wait_until_keyframe l d =
     (case hasKeyframeAtTime l (doc_current_time d) d of
        (confirmed, d1) \<Rightarrow> if confirmed then Some d1 else wait_until_keyframe l d1)"

declare wait_until_keyframe.simps [code]

text \<open>The loop \<open>for frame in frames\<close> of lines 547 to 552.\<close>

fun insert_frames_loop :: "Node \<Rightarrow> (Image \<times> Bounds) list \<Rightarrow> Document \<Rightarrow> Document option" where
  "insert_frames_loop l [] d = Some d"
| "insert_frames_loop l ((img, bnds) # frames) d =
     (case wait_until_keyframe l
             (doc_call (call_trigger ''add_duplicate_frame'')
                (doc_call (call_set_layer_content l img bnds) d)) of
        None \<Rightarrow> None
      | Some d1 \<Rightarrow> insert_frames_loop l frames (set_current_time (doc_current_time d1 + 1) d1))"

definition priv_insert_frames_into_timeline ::
  "Node \<Rightarrow> (Image \<times> Bounds) list \<Rightarrow> Document \<Rightarrow> Document option" where
  "priv_insert_frames_into_timeline l frames d =
     (let d1 = set_current_time (doc_last_keyframe d l) d;
          d2 = doc_call call_process_events d1;
          saved = doc_active_layer d2
      in case insert_frames_loop l frames (d2\<lparr>doc_active_layer := l\<rparr>) of
           None \<Rightarrow> None
         | Some d3 \<Rightarrow>
             (let d4 = d3\<lparr>doc_active_layer := saved\<rparr>
              in Some (set_end_time (doc_current_time d4) d4)))"

section \<open>Running a coroutine\<close>

text \<open>\<open>_report_errors(self, coro)\<close> for a coroutine handed to \<open>eventloop.run\<close>, run to
  its end without another handler in between.\<close>

fun run_task :: "Env \<Rightarrow> Task \<Rightarrow> Model \<Rightarrow> Model option" where
  "run_task env (Task_generate bnds cond str img msk sd cnt is_live) s =
     Some (priv_report_errors env (priv_generate env bnds cond str img msk sd cnt is_live s))"
| "run_task env (Task_upscale_image r img params) s =
     Some (priv_report_errors env (priv_upscale_image env r img params s))"
| "run_task env (Task_generate_control_layer r img mode bnds) s =
     Some (priv_report_errors env (priv_generate_control_layer r img mode bnds s))"
| "run_task env (Task_insert_frames_into_timeline l frames) s =
     map_option (\<lambda>d. s\<lparr>doc := d\<rparr>) (priv_insert_frames_into_timeline l frames (doc s))"

section \<open>The live loop over time\<close>








section \<open>The calls of a drain\<close>

text \<open>The host calls that section 4.6 of the spec describes for a drain that starts with
  the cursor at \<open>t\<close>: for each frame, in order, write its pixels, trigger the add-keyframe
  action, poll until the host confirms the keyframe at the cursor (\<open>n\<close> polls answered no
  come first), then advance the cursor by one.\<close>

fun expected_drain_calls ::
  "Node \<Rightarrow> int \<Rightarrow> (Image \<times> Bounds) list \<Rightarrow> nat list \<Rightarrow> DocCall list" where
  "expected_drain_calls l t ((img, bnds) # frames) (n # delays) =
     [call_set_layer_content l img bnds, call_trigger ''add_duplicate_frame'']
       @ replicate n (call_hasKeyframeAtTime l t False)
       @ [call_hasKeyframeAtTime l t True, call_set_current_time (t + 1)]
       @ expected_drain_calls l (t + 1) frames delays"
| "expected_drain_calls l t frames delays = []"


text \<open>The frames that a sequence of host calls writes into a layer, and the positions that
  it moves the cursor to, in the order of the calls.\<close>

fun written_frames :: "DocCall list \<Rightarrow> (Image \<times> Bounds) list" where
  "written_frames [] = []"
| "written_frames (call_set_layer_content l img bnds # cs) = (img, bnds) # written_frames cs"
| "written_frames (c # cs) = written_frames cs"

fun cursor_positions :: "DocCall list \<Rightarrow> int list" where
  "cursor_positions [] = []"
| "cursor_positions (call_set_current_time t # cs) = t # cursor_positions cs"
| "cursor_positions (c # cs) = cursor_positions cs"


text \<open>The answers of a host that confirms the keyframe of the \<open>k\<close>-th frame after
  \<open>delays ! k\<close> polls answered no.\<close>

fun host_answers :: "nat list \<Rightarrow> bool list" where
  "host_answers [] = []"
| "host_answers (n # delays) = replicate n False @ True # host_answers delays"

section \<open>Values for the examples\<close>

text \<open>Settings, library functions, a document, a connection whose worker answers the
  \<open>n\<close>-th enqueue call with the id \<open>j\<close> repeated \<open>n + 1\<close> times, and a model with an empty
  job queue, for evaluating the functions above.\<close>

definition example_settings :: Settings where
  "example_settings =
     \<lparr>selection_grow = 5, selection_feather = 5, selection_padding = 7, batch_size = 10,
      auto_preview = True, new_seed_after_apply = False\<rparr>"

definition example_env :: Env where
  "example_env =
     \<lparr>settings = example_settings,
      workflow_compute_bounds = (\<lambda>e b v. bounds_at_origin e),
      workflow_generate_seed = 1234,
      Bounds_apply_crop = (\<lambda>b c. b),
      Bounds_minimum_size = (\<lambda>b n e. b),
      resolve_sd_version = (\<lambda>sty. SDVersion_sd15),
      control_get_image = (\<lambda>c b. 0),
      log_error = (\<lambda>e. ''error''),
      image_extent = (\<lambda>i. Extent 512 512),
      extent_times = (\<lambda>e f. e),
      default_upscaler = ''upscaler''\<rparr>"

definition example_doc :: Document where
  "example_doc =
     \<lparr>doc_extent = Extent 512 512,
      doc_check_color_mode = (True, None),
      doc_is_active = True,
      doc_active_layer = Node 0,
      doc_node_type = (\<lambda>n. ''paintlayer''),
      doc_detached = (\<lambda>n. False),
      doc_next_node = 1,
      doc_current_time = 0,
      doc_end_time = 0,
      doc_last_keyframe = (\<lambda>n. 0),
      doc_keyframe_answers = [],
      doc_create_mask_from_layer = (\<lambda>p i. (None, Bounds 0 0 512 512, None)),
      doc_create_mask_from_selection = (\<lambda>a. (None, None)),
      doc_get_image = (\<lambda>b ex. Image 0),
      doc_calls = []\<rparr>"

definition example_connection :: Connection where
  "example_connection =
     \<lparr>enqueue_calls = [], respond = (\<lambda>n. Inr (replicate (Suc n) CHR ''j'')),
      clear_queue_calls = 0, interrupt_calls = 0\<rparr>"

definition example_model :: Model where
  "example_model =
     \<lparr>workspace = Workspace_generation, style = Style 0, prompt = ''a cat'',
      negative_prompt = ''blurry'', control = [], strength = 1, batch_count = 1, seed = 7,
      fixed_seed = True,
      upscale = \<lparr>upscaler = [], factor = 2, use_diffusion = True, upscale_strength = 0.3\<rparr>,
      live = \<lparr>is_active = False, is_recording = False, live_strength = 0.3,
              has_result = False, result = None, result_bounds = None,
              recording_layer = None, keyframes = []\<rparr>,
      progress = 0,
      jobs = \<lparr>entries = [], selection = None, next_ref = 0\<rparr>,
      error = [], layer = None, doc = example_doc, connection = example_connection,
      tasks = [], client_logger = [], slot_exceptions = []\<rparr>"

definition example_cond :: Conditioning where
  "example_cond =
     \<lparr>cond_prompt = ''a cat'', cond_negative_prompt = ''blurry'', cond_control = [],
      cond_area = None\<rparr>"


definition example_mask :: Mask where
  "example_mask = \<lparr>mask_bounds = Bounds 100 120 64 64, mask_image = 5\<rparr>"

text \<open>Models with jobs in the queue, a live session that is active and recording, and
  messages of the remote worker.\<close>

definition example_params :: JobParams where
  "example_params =
     \<lparr>params_bounds = Bounds 0 0 512 512, params_prompt = ''a cat'',
      params_negative_prompt = ''blurry'', params_strength = 1, params_seed = 7\<rparr>"

definition example_job :: "nat \<Rightarrow> string \<Rightarrow> JobKind \<Rightarrow> JobState \<Rightarrow> Job" where
  "example_job r i k st = (new_job r (Some i) k example_params)\<lparr>job_state := st\<rparr>"

definition example_queue_model :: Model where
  "example_queue_model =
     example_model\<lparr>jobs :=
       \<lparr>entries = [example_job 0 ''a'' JobKind_diffusion JobState_queued,
                   example_job 1 ''b'' JobKind_diffusion JobState_executing,
                   example_job 2 ''c'' JobKind_diffusion JobState_finished,
                   example_job 3 ''d'' JobKind_diffusion JobState_queued],
        selection = None, next_ref = 4\<rparr>\<rparr>"

definition example_busy_model :: Model where
  "example_busy_model =
     example_model\<lparr>jobs :=
       \<lparr>entries = [example_job 0 ''b'' JobKind_diffusion JobState_executing],
        selection = None, next_ref = 1\<rparr>\<rparr>"

definition example_finished :: "string \<Rightarrow> ClientMessage" where
  "example_finished i =
     \<lparr>message_event = ClientEvent_finished, message_job_id = i, message_progress = 1,
      message_images = [], message_result = None, message_error = []\<rparr>"

definition example_error_message :: ClientMessage where
  "example_error_message =
     \<lparr>message_event = ClientEvent_error, message_job_id = ''b'', message_progress = 0,
      message_images = [], message_result = None, message_error = ''out of memory''\<rparr>"

definition example_live_model :: Model where
  "example_live_model =
     example_model\<lparr>workspace := Workspace_live,
       live := (live example_model)\<lparr>is_active := True, is_recording := True,
                 keyframes := [(Image 1, Bounds 0 0 512 512), (Image 2, Bounds 0 0 512 512)]\<rparr>\<rparr>"

definition example_live_job :: Job where
  "example_live_job =
     (example_job 0 ''j'' JobKind_live_preview JobState_finished)\<lparr>job_results := [Image 9]\<rparr>"

definition example_recording_doc :: Document where
  "example_recording_doc = example_doc\<lparr>doc_keyframe_answers := [False, True, True]\<rparr>"

definition example_control :: ControlLayer where
  "example_control =
     \<lparr>control_ref = 0, control_mode = ControlMode_other, control_layer = Node 3,
      control_layer_id = None\<rparr>"

definition example_control_model :: Model where
  "example_control_model =
     example_model\<lparr>control := [example_control],
       jobs := \<lparr>entries =
                  [(example_job 0 ''k'' JobKind_control_layer JobState_executing)
                     \<lparr>job_control := Some example_control\<rparr>,
                   example_job 1 ''u'' JobKind_upscaling JobState_executing],
                selection = None, next_ref = 2\<rparr>\<rparr>"




definition example_recording_model :: Model where
  "example_recording_model = example_live_model\<lparr>doc := example_recording_doc\<rparr>"
section \<open>Dispatch: mode selection, mask bounds and batches\<close>

lemma upto_int_upt: "[0..int n - 1] = map int [0..<n]"
proof (induction n)
  case 0 show ?case by simp
next
  case (Suc n)
  have "[0..int (Suc n) - 1] = [0..int n - 1] @ [int n]"
    using upto_rec2 [of 0 "int n"] by simp
  with Suc show ?case by simp
qed

lemma range_count: "[0..cnt - 1] = map int [0..<nat cnt]"
proof (cases "0 \<le> cnt")
  case True
  then have "cnt = int (nat cnt)" by simp
  then show ?thesis using upto_int_upt [of "nat cnt"] by simp
next
  case False then show ?thesis by simp
qed

text \<open>
  Claim C1, as amended. The dispatch picks the builder by the table of section 4.1:
  without image and mask, \<open>generate\<close> when the strength is exactly 1; with an image and no
  mask, \<open>refine\<close> when the strength is below 1; with image and mask, \<open>inpaint\<close> when the
  strength is exactly 1 and the request is not live, and \<open>refine_region\<close> in every other
  case. All remaining combinations fail an assertion: a mask without an image, no image
  and no mask at a strength other than 1, and an image without a mask at a strength that
  is not below 1.
\<close>

theorem select_workflow_table:
  "select_workflow sty bnds cond str img msk sd is_live =
     (case img of
        None \<Rightarrow>
          (case msk of
             None \<Rightarrow> if str = 1 then Inr (workflow_generate sty (bounds_extent bnds) cond sd is_live)
                     else Inl (AssertionError [])
           | Some m \<Rightarrow> Inl (AssertionError []))
      | Some i \<Rightarrow>
          (case msk of
             None \<Rightarrow> if str < 1 then Inr (workflow_refine sty i cond str sd is_live)
                     else Inl (AssertionError [])
           | Some m \<Rightarrow> if str = 1 \<and> \<not> is_live then Inr (workflow_inpaint sty i m cond sd)
                     else Inr (workflow_refine_region sty i m cond str sd is_live)))"
  by (simp add: select_workflow_def split: option.splits)

theorem select_workflow_table_witness:
  "select_workflow (Style 0) (Bounds 0 0 64 64) example_cond (1 / 2) (Some (Image 0)) None 3 False
     = Inr (workflow_refine (Style 0) (Image 0) example_cond (1 / 2) 3 False)
   \<and> select_workflow (Style 0) (Bounds 0 0 64 64) example_cond 1 None None 3 True
     = Inr (workflow_generate (Style 0) (Extent 64 64) example_cond 3 True)"
  using select_workflow_table [of "Style 0" "Bounds 0 0 64 64" example_cond "1 / 2"
      "Some (Image 0)" None 3 False]
    select_workflow_table [of "Style 0" "Bounds 0 0 64 64" example_cond 1 None None 3 True]
  by (simp add: bounds_extent_def)

text \<open>
  Claim C1 as stated has every combination select one of the four operations, and lists
  as contract violations only a mask without an image and a missing image at a strength
  below 1. With an image, no mask and strength exactly 1 the code selects none of the
  four: the assertion of the \<open>inpaint\<close> branch fails.
\<close>

theorem select_workflow_counterexample:
  "select_workflow (Style 0) (Bounds 0 0 64 64) example_cond 1 (Some (Image 0)) None 3 False
     = Inl (AssertionError [])"
  by (simp add: select_workflow_def)

lemma enqueue_batch_frame:
  "\<exists>js ws. entries (jobs (state_of (enqueue_batch env kind pos neg bnds str sd ns w s)))
              = entries (jobs s) @ js
      \<and> (\<forall>j\<in>set js. params_bounds (job_params j) = bnds)
      \<and> enqueue_calls (connection (state_of (enqueue_batch env kind pos neg bnds str sd ns w s)))
              = enqueue_calls (connection s) @ ws
      \<and> (\<forall>v\<in>set ws. work_kind v = work_kind w)"
proof (induction ns arbitrary: w s)
  case Nil
  show ?case by simp
next
  case (Cons i ns)
  show ?case
  proof (cases "respond (connection s) (length (enqueue_calls (connection s)))")
    case (Inl e)
    then show ?thesis
      by (simp add: client_enqueue_def)
  next
    case (Inr i_d)
    let ?w = "w\<lparr>work_seed := sd + (i + 1) * batch_size (settings env)\<rparr>"
    let ?s = "s\<lparr>connection := (connection s)\<lparr>enqueue_calls := enqueue_calls (connection s) @ [w]\<rparr>,
                 jobs := jobs_add kind i_d pos neg bnds str (work_seed w) (jobs s)\<rparr>"
    have eq: "enqueue_batch env kind pos neg bnds str sd (i # ns) w s
                = enqueue_batch env kind pos neg bnds str sd ns ?w ?s"
      using Inr by (simp add: client_enqueue_def)
    from Cons.IH [of ?w ?s] obtain js ws where
      a: "entries (jobs (state_of (enqueue_batch env kind pos neg bnds str sd ns ?w ?s)))
            = entries (jobs ?s) @ js"
      and b: "\<forall>j\<in>set js. params_bounds (job_params j) = bnds"
      and c: "enqueue_calls (connection (state_of (enqueue_batch env kind pos neg bnds str sd ns ?w ?s)))
            = enqueue_calls (connection ?s) @ ws"
      and d: "\<forall>v\<in>set ws. work_kind v = work_kind ?w"
      by blast
    let ?j = "new_job (next_ref (jobs s)) (Some i_d) kind
                \<lparr>params_bounds = bnds, params_prompt = pos, params_negative_prompt = neg,
                 params_strength = str, params_seed = work_seed w\<rparr>"
    have e: "entries (jobs ?s) = entries (jobs s) @ [?j]"
      by (simp add: jobs_add_def jobs_append_def)
    have f: "params_bounds (job_params ?j) = bnds"
      by (simp add: new_job_def)
    show ?thesis
      unfolding eq
      apply (rule exI [of _ "?j # js"])
      apply (rule exI [of _ "w # ws"])
      using a b c d e f by simp
  qed
qed


lemma enqueue_batch_ok:
  assumes "work_seed w = sd + int a * batch_size (settings env)"
    and "\<forall>k<n. respond (connection s) (length (enqueue_calls (connection s)) + k) = Inr (ids k)"
  shows "\<exists>s'. enqueue_batch env kind pos neg bnds str sd (map int [a..<a + n]) w s = Return s'
      \<and> entries (jobs s') = entries (jobs s) @
           map (\<lambda>k. new_job (next_ref (jobs s) + k) (Some (ids k)) kind
                  \<lparr>params_bounds = bnds, params_prompt = pos, params_negative_prompt = neg,
                   params_strength = str, params_seed = sd + int (a + k) * batch_size (settings env)\<rparr>)
             [0..<n]
      \<and> enqueue_calls (connection s') = enqueue_calls (connection s) @
           map (\<lambda>k. w\<lparr>work_seed := sd + int (a + k) * batch_size (settings env)\<rparr>) [0..<n]"
  using assms
proof (induction n arbitrary: a w s ids)
  case 0
  then show ?case by simp
next
  case (Suc n)
  let ?c = "connection s"
  let ?w' = "w\<lparr>work_seed := sd + (int a + 1) * batch_size (settings env)\<rparr>"
  let ?s1 = "s\<lparr>connection := ?c\<lparr>enqueue_calls := enqueue_calls ?c @ [w]\<rparr>,
               jobs := jobs_add kind (ids 0) pos neg bnds str (work_seed w) (jobs s)\<rparr>"
  have r0: "respond ?c (length (enqueue_calls ?c)) = Inr (ids 0)"
    using Suc.prems(2) by (metis add.right_neutral zero_less_Suc)
  have step: "enqueue_batch env kind pos neg bnds str sd (map int [a..<a + Suc n]) w s
      = enqueue_batch env kind pos neg bnds str sd (map int [Suc a..<Suc a + n]) ?w' ?s1"
    using r0 by (simp add: upt_conv_Cons client_enqueue_def)
  have w': "work_seed ?w' = sd + int (Suc a) * batch_size (settings env)"
    by (simp add: algebra_simps)
  have resp: "\<forall>k<n. respond (connection ?s1) (length (enqueue_calls (connection ?s1)) + k)
                  = Inr (ids (Suc k))"
  proof (intro allI impI)
    fix k assume "k < n"
    then have "Suc k < Suc n" by simp
    from Suc.prems(2) [rule_format, OF this] show
      "respond (connection ?s1) (length (enqueue_calls (connection ?s1)) + k) = Inr (ids (Suc k))"
      by simp
  qed
  from Suc.IH [OF w' resp] obtain s' where
    s': "enqueue_batch env kind pos neg bnds str sd (map int [Suc a..<Suc a + n]) ?w' ?s1 = Return s'"
     "entries (jobs s') = entries (jobs ?s1) @
           map (\<lambda>k. new_job (next_ref (jobs ?s1) + k) (Some (ids (Suc k))) kind
                  \<lparr>params_bounds = bnds, params_prompt = pos, params_negative_prompt = neg,
                   params_strength = str,
                   params_seed = sd + int (Suc a + k) * batch_size (settings env)\<rparr>)
             [0..<n]"
     "enqueue_calls (connection s') = enqueue_calls (connection ?s1) @
           map (\<lambda>k. ?w'\<lparr>work_seed := sd + int (Suc a + k) * batch_size (settings env)\<rparr>) [0..<n]"
    by blast
  have m1: "\<And>f. map f [0..<Suc n] = f 0 # map (\<lambda>k. f (Suc k)) [0..<n]"
    by (simp add: map_upt_Suc del: upt_Suc)
  show ?case
    apply (rule exI [of _ s'])
    apply (simp only: step s' m1)
    using Suc.prems(1)
    apply (simp add: jobs_add_def jobs_append_def)
    done
qed

lemma select_workflow_seed:
  "select_workflow sty bnds cond str img msk sd is_live = Inr w \<Longrightarrow> work_seed w = sd"
  by (auto simp: select_workflow_def workflow_generate_def workflow_refine_def
      workflow_inpaint_def workflow_refine_region_def split: if_splits option.splits)

lemma select_workflow_mask:
  "select_workflow sty bnds cond str img msk sd is_live = Inr w \<Longrightarrow> msk = Some m
     \<Longrightarrow> work_mask w = Some m"
  by (auto simp: select_workflow_def workflow_generate_def workflow_refine_def work_mask_def
      workflow_inpaint_def workflow_refine_region_def split: if_splits option.splits)

lemma select_workflow_valid:
  "(img = None \<and> msk = None \<and> str = 1) \<or> (img \<noteq> None \<and> msk = None \<and> str < 1)
     \<or> (img \<noteq> None \<and> msk \<noteq> None)
   \<Longrightarrow> \<exists>w. select_workflow sty bnds cond str img msk sd is_live = Inr w"
  by (auto simp: select_workflow_def)

lemma any_executing_progress [simp]: "any_executing (jobs (s\<lparr>progress := v\<rparr>)) = any_executing (jobs s)"
  by simp

text \<open>
  Claim C2. For a request with a mask \<open>m\<close>, every work item that the dispatch submits
  carries the mask with its bounds rewritten relative to the request bounds (offset
  subtracted, extent kept), every job that the dispatch records has the absolute bounds
  of \<open>m\<close> as its bounds, and the jobs recorded before are untouched.
\<close>

theorem priv_generate_mask_bounds:
  "(\<forall>w\<in>set (drop (length (enqueue_calls (connection s)))
        (enqueue_calls (connection (state_of
           (priv_generate env bnds cond str img (Some m) sd cnt is_live s))))).
      work_mask w = Some (m\<lparr>mask_bounds :=
        Bounds (bounds_x (mask_bounds m) - bounds_x bnds) (bounds_y (mask_bounds m) - bounds_y bnds)
          (bounds_width (mask_bounds m)) (bounds_height (mask_bounds m))\<rparr>))
   \<and> (\<forall>j\<in>set (drop (length (entries (jobs s)))
        (entries (jobs (state_of (priv_generate env bnds cond str img (Some m) sd cnt is_live s))))).
      params_bounds (job_params j) = mask_bounds m)
   \<and> take (length (entries (jobs s)))
        (entries (jobs (state_of (priv_generate env bnds cond str img (Some m) sd cnt is_live s))))
      = entries (jobs s)"
proof -
  let ?m1 = "m\<lparr>mask_bounds := mask_bounds_rel m bnds\<rparr>"
  let ?s1 = "if \<not> any_executing (jobs s) then s\<lparr>progress := 0\<rparr> else s"
  have rel: "mask_bounds_rel m bnds =
        Bounds (bounds_x (mask_bounds m) - bounds_x bnds) (bounds_y (mask_bounds m) - bounds_y bnds)
          (bounds_width (mask_bounds m)) (bounds_height (mask_bounds m))"
    by (simp add: mask_bounds_rel_def bounds_extent_def)
  have s1: "entries (jobs ?s1) = entries (jobs s)"
    "enqueue_calls (connection ?s1) = enqueue_calls (connection s)"
    by simp_all
  show ?thesis
  proof (cases "select_workflow (style s) (mask_bounds m) cond str img (Some ?m1) sd is_live")
    case (Inl e)
    then show ?thesis
      by (simp add: priv_generate_def Let_def)
  next
    case (Inr w)
    let ?r = "enqueue_batch env (if is_live then JobKind_live_preview else JobKind_diffusion)
               (cond_prompt cond) (cond_negative_prompt cond) (mask_bounds m) str sd
               [0..cnt - 1] w ?s1"
    have r: "priv_generate env bnds cond str img (Some m) sd cnt is_live s = ?r"
      using Inr by (simp add: priv_generate_def Let_def)
    from enqueue_batch_frame [of env "if is_live then JobKind_live_preview else JobKind_diffusion"
        "cond_prompt cond" "cond_negative_prompt cond" "mask_bounds m" str sd "[0..cnt - 1]" w ?s1]
    obtain js ws where
      a: "entries (jobs (state_of ?r)) = entries (jobs ?s1) @ js"
      and b: "\<forall>j\<in>set js. params_bounds (job_params j) = mask_bounds m"
      and c: "enqueue_calls (connection (state_of ?r)) = enqueue_calls (connection ?s1) @ ws"
      and d: "\<forall>v\<in>set ws. work_kind v = work_kind w"
      by blast
    have wm: "work_mask w = Some ?m1"
      using select_workflow_mask [OF Inr] by simp
    have d': "\<forall>v\<in>set ws. work_mask v = Some ?m1"
      using d wm by (simp add: work_mask_def)
    show ?thesis
      unfolding r using a b c d' s1 rel by simp
  qed
qed

text \<open>
  Claim C3. When the combination of image, mask and strength is one that the selection
  accepts and the worker acknowledges each of the \<open>cnt\<close> submissions, the dispatch returns
  and has appended exactly \<open>cnt\<close> jobs to the queue, in submission order; the \<open>k\<close>-th of
  them has the id of the \<open>k\<close>-th acknowledgement and the seed \<open>sd + k * batch_size\<close>, and
  all have the same kind, bounds, prompt, negative prompt and strength.
\<close>

theorem priv_generate_batch:
  assumes "(img = None \<and> msk = None \<and> str = 1) \<or> (img \<noteq> None \<and> msk = None \<and> str < 1)
             \<or> (img \<noteq> None \<and> msk \<noteq> None)"
    and "\<forall>k<nat cnt. respond (connection s) (length (enqueue_calls (connection s)) + k)
           = Inr (ids k)"
  shows "\<exists>s'. priv_generate env bnds cond str img msk sd cnt is_live s = Return s'
      \<and> entries (jobs s') = entries (jobs s) @
           map (\<lambda>k. new_job (next_ref (jobs s) + k) (Some (ids k))
                  (if is_live then JobKind_live_preview else JobKind_diffusion)
                  \<lparr>params_bounds = (case msk of None \<Rightarrow> bnds | Some m \<Rightarrow> mask_bounds m),
                   params_prompt = cond_prompt cond,
                   params_negative_prompt = cond_negative_prompt cond,
                   params_strength = str,
                   params_seed = sd + int k * batch_size (settings env)\<rparr>)
             [0..<nat cnt]"
proof -
  let ?b1 = "case msk of None \<Rightarrow> bnds | Some m \<Rightarrow> mask_bounds m"
  let ?m1 = "case msk of None \<Rightarrow> None | Some m \<Rightarrow> Some (m\<lparr>mask_bounds := mask_bounds_rel m bnds\<rparr>)"
  let ?s1 = "if \<not> any_executing (jobs s) then s\<lparr>progress := 0\<rparr> else s"
  let ?kind = "if is_live then JobKind_live_preview else JobKind_diffusion"
  have valid: "(img = None \<and> ?m1 = None \<and> str = 1) \<or> (img \<noteq> None \<and> ?m1 = None \<and> str < 1)
             \<or> (img \<noteq> None \<and> ?m1 \<noteq> None)"
    using assms(1) by (auto split: option.splits)
  from select_workflow_valid [OF valid] obtain w where
    w: "select_workflow (style s) ?b1 cond str img ?m1 sd is_live = Inr w"
    by blast
  have seed0: "work_seed w = sd + int 0 * batch_size (settings env)"
    using select_workflow_seed [OF w] by simp
  have resp: "\<forall>k<nat cnt. respond (connection ?s1) (length (enqueue_calls (connection ?s1)) + k)
           = Inr (ids k)"
    using assms(2) by simp
  have r: "priv_generate env bnds cond str img msk sd cnt is_live s
             = enqueue_batch env ?kind (cond_prompt cond) (cond_negative_prompt cond) ?b1 str sd
                 (map int [0..<0 + nat cnt]) w ?s1"
    using w by (simp add: priv_generate_def Let_def range_count)
  from enqueue_batch_ok [OF seed0 resp, of ?kind "cond_prompt cond" "cond_negative_prompt cond"
      ?b1 str]
  obtain s' where
    s': "enqueue_batch env ?kind (cond_prompt cond) (cond_negative_prompt cond) ?b1 str sd
           (map int [0..<0 + nat cnt]) w ?s1 = Return s'"
    "entries (jobs s') = entries (jobs ?s1) @
           map (\<lambda>k. new_job (next_ref (jobs ?s1) + k) (Some (ids k)) ?kind
                  \<lparr>params_bounds = ?b1, params_prompt = cond_prompt cond,
                   params_negative_prompt = cond_negative_prompt cond,
                   params_strength = str,
                   params_seed = sd + int (0 + k) * batch_size (settings env)\<rparr>)
             [0..<nat cnt]"
    by blast
  show ?thesis
    apply (rule exI [of _ s'])
    unfolding r using s' by simp
qed


theorem priv_generate_mask_bounds_witness:
  "map (params_bounds \<circ> job_params)
     (entries (jobs (state_of (priv_generate example_env (Bounds 80 90 256 256) example_cond 1
        (Some (Image 0)) (Some example_mask) 7 1 False example_model))))
     = [Bounds 100 120 64 64]
   \<and> map work_mask
     (enqueue_calls (connection (state_of (priv_generate example_env (Bounds 80 90 256 256)
        example_cond 1 (Some (Image 0)) (Some example_mask) 7 1 False example_model))))
     = [Some \<lparr>mask_bounds = Bounds 20 30 64 64, mask_image = 5\<rparr>]"
proof -
  define r where "r = state_of (priv_generate example_env (Bounds 80 90 256 256) example_cond 1
        (Some (Image 0)) (Some example_mask) 7 1 False example_model)"
  have shape: "length (entries (jobs r)) = 1" "length (enqueue_calls (connection r)) = 1"
    unfolding r_def
    by (simp_all add: priv_generate_def Let_def example_model_def example_connection_def
        select_workflow_def any_executing_def client_enqueue_def jobs_add_def jobs_append_def)
  obtain j where j: "entries (jobs r) = [j]"
    using shape(1) by (cases "entries (jobs r)") auto
  obtain w where w: "enqueue_calls (connection r) = [w]"
    using shape(2) by (cases "enqueue_calls (connection r)") auto
  have old: "entries (jobs example_model) = []" "enqueue_calls (connection example_model) = []"
    by (simp_all add: example_model_def example_connection_def)
  note th0 = priv_generate_mask_bounds [of example_model example_env "Bounds 80 90 256 256"
      example_cond 1 "Some (Image 0)" example_mask 7 1 False, folded r_def]
  have "work_mask w = Some (example_mask\<lparr>mask_bounds := Bounds (100 - 80) (120 - 90) 64 64\<rparr>)"
    using th0 [THEN conjunct1] w old by (simp add: example_mask_def)
  moreover have "params_bounds (job_params j) = mask_bounds example_mask"
    using th0 [THEN conjunct2, THEN conjunct1] j old by simp
  ultimately show ?thesis
    unfolding r_def [symmetric] using j w by (simp add: example_mask_def)
qed

theorem priv_generate_batch_witness:
  "\<exists>s'. priv_generate example_env (Bounds 0 0 512 512) example_cond 1 None None 7 3 False
            example_model = Return s'
      \<and> map (params_seed \<circ> job_params) (entries (jobs s')) = [7, 17, 27]
      \<and> map job_id (entries (jobs s')) = [Some ''j'', Some ''jj'', Some ''jjj'']"
proof -
  have valid: "((None :: Image option) = None \<and> (None :: Mask option) = None \<and> (1::real) = 1)
      \<or> ((None :: Image option) \<noteq> None \<and> (None :: Mask option) = None \<and> (1::real) < 1)
      \<or> ((None :: Image option) \<noteq> None \<and> (None :: Mask option) \<noteq> None)"
    by simp
  have resp: "\<forall>k<nat 3. respond (connection example_model)
        (length (enqueue_calls (connection example_model)) + k) = Inr (replicate (Suc k) CHR ''j'')"
    by (simp add: example_model_def example_connection_def)
  have three: "[0..<nat 3] = [0, 1, 2]"
    by (simp add: eval_nat_numeral)
  note ex = priv_generate_batch [OF valid resp, of example_env "Bounds 0 0 512 512" example_cond 7
      False]
  show ?thesis
    using ex unfolding three
    by (auto simp: example_model_def example_env_def example_settings_def new_job_def
        numeral_2_eq_2)
qed

section \<open>Cancelling\<close>

lemma fold_remove1_filter:
  "\<forall>y\<in>set ys. \<not> P y \<Longrightarrow>
     fold remove1 (filter P xs) (ys @ xs) = ys @ filter (\<lambda>x. \<not> P x) xs"
proof (induction xs arbitrary: ys)
  case Nil
  show ?case by simp
next
  case (Cons x xs)
  show ?case
  proof (cases "P x")
    case True
    then have "x \<notin> set ys" using Cons.prems by blast
    then have "remove1 x (ys @ x # xs) = ys @ xs"
      by (simp add: remove1_append)
    with True Cons.IH [OF Cons.prems] show ?thesis by simp
  next
    case False
    then have "\<forall>y\<in>set (ys @ [x]). \<not> P y" using Cons.prems by simp
    from Cons.IH [OF this] False show ?thesis by simp
  qed
qed

lemma fold_jobs_remove:
  "entries (fold jobs_remove js q) = fold remove1 js (entries q)"
  by (induction js arbitrary: q) (simp_all add: jobs_remove_def)

lemma cancel_entries:
  "entries (jobs (cancel active True s))
     = filter (\<lambda>j. job_state j \<noteq> JobState_queued) (entries (jobs s))"
proof -
  let ?P = "\<lambda>j. job_state j = JobState_queued"
  have a: "fold remove1 (filter ?P (entries (jobs s))) (entries (jobs s))
             = filter (\<lambda>j. \<not> ?P j) (entries (jobs s))"
    using fold_remove1_filter [of "[]" ?P "entries (jobs s)"] by simp
  have b: "filter ?P (entries (jobs s)) = [] \<Longrightarrow>
             filter (\<lambda>j. \<not> ?P j) (entries (jobs s)) = entries (jobs s)"
    by (simp add: filter_empty_conv)
  show ?thesis
    using a b by (auto simp: cancel_def Let_def fold_jobs_remove)
qed

lemma cancel_clear_queue:
  "clear_queue_calls (connection (cancel active True s))
     = clear_queue_calls (connection s)
       + (if list_ex (\<lambda>j. job_state j = JobState_queued) (entries (jobs s)) then 1 else 0)"
  by (auto simp: cancel_def Let_def clear_queue_def interrupt_def list_ex_iff filter_empty_conv)


text \<open>
  Claim C7, as amended. \<open>cancel\<close> with \<open>queued=True\<close> removes from the queue exactly the
  jobs whose state is queued and keeps the others in their order; it asks the remote
  worker to clear its queue once when at least one job was queued, and not at all when
  none was.
\<close>

theorem cancel_queued:
  "entries (jobs (cancel active True s))
     = filter (\<lambda>j. job_state j \<noteq> JobState_queued) (entries (jobs s))
   \<and> clear_queue_calls (connection (cancel active True s))
     = clear_queue_calls (connection s)
       + (if list_ex (\<lambda>j. job_state j = JobState_queued) (entries (jobs s)) then 1 else 0)"
  using cancel_entries cancel_clear_queue by blast

theorem cancel_queued_witness:
  "map job_id (entries (jobs (cancel False True example_queue_model))) = [Some ''b'', Some ''c'']
   \<and> clear_queue_calls (connection (cancel False True example_queue_model)) = 1"
  using cancel_queued [of False example_queue_model]
  by (simp add: example_queue_model_def example_job_def new_job_def example_model_def
      example_connection_def)


text \<open>
  Claim C7 as stated has the queue-clear requested exactly once, however many jobs were
  removed. With one executing job and no queued job, \<open>cancel\<close> with \<open>queued=True\<close> removes
  nothing and requests no queue-clear: line 250 guards the request by
  \<open>len(to_remove) > 0\<close>.
\<close>

theorem cancel_queued_counterexample:
  "map job_state (entries (jobs example_busy_model)) = [JobState_executing]
   \<and> clear_queue_calls (connection example_busy_model) = 0
   \<and> clear_queue_calls (connection (cancel False True example_busy_model)) = 0"
  by (simp add: cancel_def example_busy_model_def example_job_def new_job_def example_model_def
      example_connection_def)


section \<open>Events for unknown jobs\<close>

text \<open>
  Claim C5. When no job of the queue has the id of the message, \<open>handle_message\<close> returns
  without raising, whatever the event is, and the state it leaves differs from the state
  before only by one more entry in the log.
\<close>

theorem handle_message_unknown_job:
  "jobs_find (message_job_id message) (jobs s) = None \<Longrightarrow>
     handle_message env message s
       = Return (s\<lparr>client_logger := client_logger s @ [log_unknown_job message]\<rparr>)"
  by (simp add: handle_message_def)

theorem handle_message_unknown_job_witness:
  "handle_message example_env (example_finished ''zz'') example_queue_model
     = Return (example_queue_model\<lparr>client_logger := [log_unknown_job (example_finished ''zz'')]\<rparr>)"
proof -
  have h: "jobs_find (message_job_id (example_finished ''zz'')) (jobs example_queue_model) = None"
    by (simp add: jobs_find_def example_finished_def example_queue_model_def example_job_def
        new_job_def)
  have l: "client_logger example_queue_model = []"
    by (simp add: example_queue_model_def example_model_def)
  show ?thesis
    using handle_message_unknown_job [OF h, of example_env] l by simp
qed

section \<open>The setters of the live workspace\<close>

lemma toggle_same: "is_active (live s) = active \<Longrightarrow> toggle env active s = s"
  by simp

lemma toggle_record_same: "is_recording (live s) = active \<Longrightarrow> toggle_record env active s = s"
  by simp

lemma toggle_on:
  "\<not> is_active (live s) \<Longrightarrow>
     toggle env True s = generate_live env (s\<lparr>live := (live s)\<lparr>is_active := True\<rparr>\<rparr>)"
  by simp

lemma toggle_off:
  "is_active (live s) \<Longrightarrow>
     toggle env False s =
       (if is_recording (live s)
        then priv_insert_frames (s\<lparr>live := (live s)\<lparr>is_active := False, is_recording := False\<rparr>\<rparr>)
        else s\<lparr>live := (live s)\<lparr>is_active := False\<rparr>\<rparr>)"
  by simp

lemma toggle_off_inactive: "\<not> is_active (live s) \<Longrightarrow> toggle env False s = s"
  by simp


lemma priv_add_recording_layer_frame:
  "is_active (live (snd (priv_add_recording_layer r s))) = is_active (live s)"
  "is_recording (live (snd (priv_add_recording_layer r s))) = is_recording (live s)"
  "keyframes (live (snd (priv_add_recording_layer r s))) = keyframes (live s)"
  "result (live (snd (priv_add_recording_layer r s))) = result (live s)"
  "tasks (snd (priv_add_recording_layer r s)) = tasks s"
  "error (snd (priv_add_recording_layer r s)) = error s"
  "jobs (snd (priv_add_recording_layer r s)) = jobs s"
  "connection (snd (priv_add_recording_layer r s)) = connection s"
  "workspace (snd (priv_add_recording_layer r s)) = workspace s"
  "doc_is_active (doc (snd (priv_add_recording_layer r s))) = doc_is_active (doc s)"
  by (simp_all add: priv_add_recording_layer_def Let_def insert_layer_def doc_call_def
      split: option.splits prod.splits)

lemma priv_insert_frames_frame:
  "is_active (live (priv_insert_frames s)) = is_active (live s)"
  "is_recording (live (priv_insert_frames s)) = is_recording (live s)"
  "keyframes (live (priv_insert_frames s)) = []"
  "result (live (priv_insert_frames s)) = result (live s)"
  "error (priv_insert_frames s) = error s"
  "jobs (priv_insert_frames s) = jobs s"
  "connection (priv_insert_frames s) = connection s"
  "workspace (priv_insert_frames s) = workspace s"
  "doc_is_active (doc (priv_insert_frames s)) = doc_is_active (doc s)"
  by (simp_all add: priv_insert_frames_def Let_def eventloop_run_def case_prod_beta
      priv_add_recording_layer_frame)

lemma generate_live_frame:
  "live (generate_live env s) = live s"
  "error (generate_live env s) = []"
  "jobs (generate_live env s) = jobs s"
  "connection (generate_live env s) = connection s"
  "workspace (generate_live env s) = workspace s"
  "doc (generate_live env s) = doc s"
  by (simp_all add: generate_live_def Let_def eventloop_run_def clear_error_def)

lemma toggle_off_flags:
  "\<not> is_active (live (toggle env False s))"
  "is_active (live s) \<Longrightarrow> \<not> is_recording (live (toggle env False s))"
  "error (toggle env False s) = error s"
  "jobs (toggle env False s) = jobs s"
  "connection (toggle env False s) = connection s"
  "workspace (toggle env False s) = workspace s"
  "doc_is_active (doc (toggle env False s)) = doc_is_active (doc s)"
  by (cases "is_active (live s)"; simp add: priv_insert_frames_frame)+

lemma toggle_keeps_recording_active:
  "(is_recording (live s) \<longrightarrow> is_active (live s)) \<Longrightarrow>
     (is_recording (live (toggle env a s)) \<longrightarrow> is_active (live (toggle env a s)))"
  by (cases a; cases "is_active (live s)")
    (simp_all add: generate_live_frame priv_insert_frames_frame)

lemma toggle_record_keeps_recording_active:
  "(is_recording (live s) \<longrightarrow> is_active (live s)) \<Longrightarrow>
     (is_recording (live (toggle_record env a s))
        \<longrightarrow> is_active (live (toggle_record env a s)))"
  by (cases a; cases "is_active (live s)"; cases "is_recording (live s)")
    (simp_all add: generate_live_frame priv_insert_frames_frame priv_add_recording_layer_frame)


section \<open>Workspace changes\<close>

text \<open>
  Claim C10. When the current workspace is the live workspace, \<open>set_workspace\<close> first
  deactivates the live session, while the workspace is still the live one, and then
  assigns the new workspace: afterwards the active flag is off, and so is the recording
  flag (the setters keep recording on only while the session is active). From any other
  workspace the live session is left as it is.
\<close>

theorem set_workspace_deactivates_live:
  "(workspace s = Workspace_live \<longrightarrow>
      set_workspace env w s = (toggle env False s)\<lparr>workspace := w\<rparr>
      \<and> workspace (toggle env False s) = Workspace_live
      \<and> \<not> is_active (live (set_workspace env w s))
      \<and> ((is_recording (live s) \<longrightarrow> is_active (live s))
            \<longrightarrow> \<not> is_recording (live (set_workspace env w s))))
   \<and> (workspace s \<noteq> Workspace_live \<longrightarrow> live (set_workspace env w s) = live s)
   \<and> workspace (set_workspace env w s) = w"
proof -
  have rec: "(is_recording (live s) \<longrightarrow> is_active (live s))
               \<Longrightarrow> \<not> is_recording (live (toggle env False s))"
    using toggle_off_flags(2) [of s env] by (cases "is_active (live s)") auto
  show ?thesis
    using rec by (simp add: set_workspace_def Let_def toggle_off_flags del: toggle.simps)
qed

theorem set_workspace_deactivates_live_witness:
  "workspace example_live_model = Workspace_live
   \<and> is_active (live example_live_model) \<and> is_recording (live example_live_model)
   \<and> is_active (live (set_workspace example_env Workspace_generation example_live_model)) = False
   \<and> is_recording (live (set_workspace example_env Workspace_generation example_live_model)) = False
   \<and> workspace (set_workspace example_env Workspace_generation example_live_model)
       = Workspace_generation
   \<and> is_active (live (set_workspace example_env Workspace_live example_model)) = False"
proof -
  have h: "workspace example_live_model = Workspace_live"
    "is_active (live example_live_model)" "is_recording (live example_live_model)"
    by (simp_all add: example_live_model_def example_model_def)
  have g: "workspace example_model \<noteq> Workspace_live" "is_active (live example_model) = False"
    by (simp_all add: example_model_def)
  show ?thesis
    using h g
      set_workspace_deactivates_live [of example_live_model example_env Workspace_generation]
      set_workspace_deactivates_live [of example_model example_env Workspace_live]
    by metis
qed


section \<open>Errors\<close>

lemma report_error_flags:
  "error (report_error env msg s) = msg"
  "\<not> is_active (live (report_error env msg s))"
  by (simp_all add: report_error_def toggle_off_flags del: toggle.simps)


lemma set_result_frame:
  "is_active (live (set_result v b s)) = is_active (live s)"
  "tasks (set_result v b s) = tasks s"
  "doc (set_result v b s) = doc s"
  "result (live (set_result v b s)) = Some v"
  by (simp_all add: set_result_def Let_def)

lemma handle_job_finished_inactive:
  "\<not> is_active (live s) \<Longrightarrow> tasks (handle_job_finished env job s) = tasks s"
  "\<not> is_active (live s) \<Longrightarrow> \<not> is_active (live (handle_job_finished env job s))"
  by (simp_all add: handle_job_finished_def Let_def set_result_frame toggle_off_inactive
      del: toggle.simps)

lemma priv_report_errors_raise:
  "error (priv_report_errors env (Raise e s))
     = (case e of
          NetworkError t url code \<Rightarrow> log_error env e @ '' [url='' @ url @ '', code='' @ code @ '']''
        | _ \<Rightarrow> log_error env e)"
  "\<not> is_active (live (priv_report_errors env (Raise e s)))"
  by (cases e; simp add: report_error_flags)+

lemma handle_message_error_event:
  "jobs_find (message_job_id m) (jobs s) = Some job \<Longrightarrow> message_event m = ClientEvent_error \<Longrightarrow>
     handle_message env m s
       = Return (report_error env (''Server execution error: '' @ message_error m)
                   (notify_cancelled job s))"
  by (simp add: handle_message_def)

lemma generate_started:
  "fst (doc_check_color_mode (doc s)) \<or> snd (doc_check_color_mode (doc s)) = None
     \<or> snd (doc_check_color_mode (doc s)) = Some [] \<Longrightarrow>
   error (generate env s) = [] \<and> connection (generate env s) = connection s
     \<and> (\<exists>t. tasks (generate env s) = tasks s @ [t])"
  by (auto simp: generate_def Let_def eventloop_run_def clear_error_def case_prod_beta)

lemma generate_control_layer_started:
  "fst (doc_check_color_mode (doc s)) \<or> snd (doc_check_color_mode (doc s)) = None
     \<or> snd (doc_check_color_mode (doc s)) = Some [] \<Longrightarrow>
   error (generate_control_layer env c s) = []
     \<and> connection (generate_control_layer env c s) = connection s
     \<and> (\<exists>t. tasks (generate_control_layer env c s) = tasks s @ [t])"
  by (auto simp: generate_control_layer_def Let_def eventloop_run_def clear_error_def
      case_prod_beta)

lemma generate_live_started:
  "error (generate_live env s) = [] \<and> connection (generate_live env s) = connection s
     \<and> (\<exists>t. tasks (generate_live env s) = tasks s @ [t])"
  by (simp add: generate_live_def Let_def eventloop_run_def clear_error_def)

lemma upscale_image_started:
  "error (upscale_image env s) = [] \<and> connection (upscale_image env s) = connection s
     \<and> (\<exists>t. tasks (upscale_image env s) = tasks s @ [t])"
  by (simp add: upscale_image_def Let_def eventloop_run_def clear_error_def case_prod_beta)


text \<open>
  Claim C9. \<open>report_error\<close> makes its message the error of the model, whatever the error
  was before, and leaves the live session inactive, so that a live job that finishes
  afterwards submits nothing. This is what an exception of a coroutine (a network error
  or any other) and an error event of the remote worker for a known job lead to. In the
  other direction \<open>generate\<close> and \<open>generate_control_layer\<close> (once the colour mode check
  passes), \<open>generate_live\<close> and \<open>upscale_image\<close> return with an empty error, the coroutine
  handed to the event loop and nothing sent to the remote worker yet.
\<close>

theorem error_is_reported_and_cleared:
  "error (report_error env msg s) = msg
   \<and> \<not> is_active (live (report_error env msg s))
   \<and> tasks (handle_job_finished env job (report_error env msg s))
       = tasks (report_error env msg s)
   \<and> error (priv_report_errors env (Raise e s))
       = (case e of
            NetworkError t url code \<Rightarrow>
              log_error env e @ '' [url='' @ url @ '', code='' @ code @ '']''
          | _ \<Rightarrow> log_error env e)
   \<and> \<not> is_active (live (priv_report_errors env (Raise e s)))
   \<and> (message_event m = ClientEvent_error \<and> jobs_find (message_job_id m) (jobs s) \<noteq> None \<longrightarrow>
        raised (handle_message env m s) = None
        \<and> error (state_of (handle_message env m s))
            = ''Server execution error: '' @ message_error m
        \<and> \<not> is_active (live (state_of (handle_message env m s))))
   \<and> (fst (doc_check_color_mode (doc s)) \<or> snd (doc_check_color_mode (doc s)) = None
        \<or> snd (doc_check_color_mode (doc s)) = Some [] \<longrightarrow>
        error (generate env s) = [] \<and> connection (generate env s) = connection s
        \<and> (\<exists>t. tasks (generate env s) = tasks s @ [t])
        \<and> error (generate_control_layer env c s) = []
        \<and> connection (generate_control_layer env c s) = connection s
        \<and> (\<exists>t. tasks (generate_control_layer env c s) = tasks s @ [t]))
   \<and> error (generate_live env s) = [] \<and> connection (generate_live env s) = connection s
   \<and> (\<exists>t. tasks (generate_live env s) = tasks s @ [t])
   \<and> error (upscale_image env s) = [] \<and> connection (upscale_image env s) = connection s
   \<and> (\<exists>t. tasks (upscale_image env s) = tasks s @ [t])"
proof -
  have ev: "message_event m = ClientEvent_error \<and> jobs_find (message_job_id m) (jobs s) \<noteq> None \<longrightarrow>
        raised (handle_message env m s) = None
        \<and> error (state_of (handle_message env m s))
            = ''Server execution error: '' @ message_error m
        \<and> \<not> is_active (live (state_of (handle_message env m s)))"
    using handle_message_error_event [of m s _ env] report_error_flags by auto
  show ?thesis
    using ev report_error_flags [of env msg s]
      handle_job_finished_inactive(1) [OF report_error_flags(2), of env job env msg s]
      priv_report_errors_raise [of env e s]
      generate_started [of s env] generate_control_layer_started [of s env c]
      generate_live_started [of env s] upscale_image_started [of env s]
    by blast
qed

theorem error_is_reported_and_cleared_witness:
  "error (report_error example_env ''boom'' example_live_model) = ''boom''
   \<and> is_active (live (report_error example_env ''boom'' example_live_model)) = False
   \<and> error (generate example_env (example_model\<lparr>error := ''stale''\<rparr>)) = []
   \<and> error (state_of (handle_message example_env example_error_message example_queue_model))
       = ''Server execution error: out of memory''
   \<and> is_active (live (state_of (handle_message example_env example_error_message
         example_queue_model))) = False"
proof -
  have color: "fst (doc_check_color_mode (doc (example_model\<lparr>error := ''stale''\<rparr>)))"
    by (simp add: example_model_def example_doc_def)
  have ev: "message_event example_error_message = ClientEvent_error"
    "jobs_find (message_job_id example_error_message) (jobs example_queue_model) \<noteq> None"
    "message_error example_error_message = ''out of memory''"
    by (simp_all add: example_error_message_def jobs_find_def example_queue_model_def
        example_job_def new_job_def)
  note a = error_is_reported_and_cleared [of example_env "''boom''" example_live_model
      example_live_job "Exception []" example_error_message "hd []"]
  note b = error_is_reported_and_cleared [of example_env "''boom''"
      "example_model\<lparr>error := ''stale''\<rparr>" example_live_job "Exception []"
      example_error_message "hd []"]
  note c = error_is_reported_and_cleared [of example_env "''boom''" example_queue_model
      example_live_job "Exception []" example_error_message "hd []"]
  have 1: "error (report_error example_env ''boom'' example_live_model) = ''boom''"
    and 2: "\<not> is_active (live (report_error example_env ''boom'' example_live_model))"
    using a by blast+
  have 3: "error (generate example_env (example_model\<lparr>error := ''stale''\<rparr>)) = []"
    using b color by blast
  have 4: "error (state_of (handle_message example_env example_error_message example_queue_model))
       = ''Server execution error: '' @ message_error example_error_message"
    and 5: "\<not> is_active (live (state_of (handle_message example_env example_error_message
         example_queue_model)))"
    using c ev(1,2) by blast+
  show ?thesis
    using 1 2 3 4 5 ev(3) by simp
qed

section \<open>What leaves the live session alone\<close>












section \<open>What a coroutine sends to the worker\<close>












section \<open>The live loop\<close>





lemma connection_priv_insert_frames:
  "connection (priv_insert_frames s) = connection s"
  by (simp add: priv_insert_frames_def Let_def eventloop_run_def case_prod_beta
      priv_add_recording_layer_def insert_layer_def split: option.splits)













section \<open>Finished events without images\<close>

lemma py_index_empty: "py_index [] n = Inl IndexError"
  by (simp add: py_index_def Let_def)

text \<open>\<open>show_preview\<close> reads \<open>job.results[index]\<close> without looking at the length of the
  results (lines 312 and 316): for a job without results it raises \<open>IndexError\<close>.\<close>

lemma show_preview_no_results:
  assumes "jobs_find i (jobs s) = Some j" and "job_results j = []"
  shows "raised (show_preview i n s) = Some IndexError"
    and "layer s = None \<Longrightarrow> show_preview i n s = Raise IndexError s"
  using assms
  by (simp_all add: show_preview_def Let_def py_index_empty split: option.splits)

lemma find_put:
  assumes "List.find P xs = Some x" and "P y" and "f x"
  shows "List.find P (map (\<lambda>k. if f k then y else k) xs) = Some y"
  using assms by (induction xs) (auto split: if_splits)

lemma jobs_find_put_job:
  assumes "jobs_find i (jobs s) = Some j" and "job_id j1 = Some i" and "job_ref j1 = job_ref j"
  shows "jobs_find i (jobs (put_job j1 s)) = Some j1"
  using find_put [of "\<lambda>k. job_id k = Some i" "entries (jobs s)" j j1
      "\<lambda>k. job_ref k = job_ref j1"] assms
  by (simp add: jobs_find_def put_job_def jobs_put_def)

lemma jobs_find_id: "jobs_find i q = Some j \<Longrightarrow> job_id j = Some i"
  by (auto simp: jobs_find_def find_Some_iff)

text \<open>
  Claim C6, where the code does not do what the claim says. A finished event without
  images arrives for a diffusion job of the queue that has no results, with auto-preview
  enabled, no preview layer and the job not selected: \<open>handle_message\<close> marks the job
  finished and selects its first result for preview (lines 289 and 290); the slot
  \<open>update_preview\<close> of \<open>selection_changed\<close> calls \<open>show_preview\<close>, which raises
  \<open>IndexError\<close> at \<open>job.results[0]\<close> (line 316). The exception stays with the slot:
  \<open>handle_message\<close> returns, the job stays selected without a preview layer, and showing
  the preview of the selection raises again.
\<close>

theorem finished_without_images_auto_preview:
  "jobs_find (message_job_id m) (jobs s) = Some job \<and> job_kind job = JobKind_diffusion
     \<and> message_event m = ClientEvent_finished \<and> message_images m = [] \<and> job_results job = []
     \<and> auto_preview (settings env) \<and> layer s = None \<and> message_job_id m \<noteq> []
     \<and> selection (jobs s) \<noteq> Some (message_job_id m, 0) \<longrightarrow>
   raised (handle_message env m s) = None
   \<and> slot_exceptions (state_of (handle_message env m s)) = slot_exceptions s @ [IndexError]
   \<and> jobs_find (message_job_id m) (jobs (state_of (handle_message env m s)))
       = Some (job\<lparr>job_state := JobState_finished\<rparr>)
   \<and> selection (jobs (state_of (handle_message env m s))) = Some (message_job_id m, 0)
   \<and> layer (state_of (handle_message env m s)) = None
   \<and> raised (update_preview (state_of (handle_message env m s))) = Some IndexError
   \<and> raised (show_preview (message_job_id m) 0 (state_of (handle_message env m s)))
       = Some IndexError"
proof (intro impI, elim conjE)
  let ?i = "message_job_id m"
  assume found: "jobs_find ?i (jobs s) = Some job" and kind: "job_kind job = JobKind_diffusion"
    and ev: "message_event m = ClientEvent_finished" and img: "message_images m = []"
    and res: "job_results job = []" and auto: "auto_preview (settings env)"
    and lay: "layer s = None" and ne: "?i \<noteq> []"
    and sel: "selection (jobs s) \<noteq> Some (?i, 0)"
  define job3 where "job3 = job\<lparr>job_state := JobState_finished\<rparr>"
  define s3 where "s3 = put_job job3 ((put_job job s)\<lparr>progress := 1\<rparr>)"
  define s5 where "s5 = s3\<lparr>jobs := (jobs s3)\<lparr>selection := Some (?i, 0)\<rparr>\<rparr>"
  have i: "job_id job = Some ?i"
    by (rule jobs_find_id [OF found])
  have j3: "job_id job3 = Some ?i" "job_kind job3 = JobKind_diffusion" "job_results job3 = []"
    "job_ref job3 = job_ref job"
    using i kind res by (simp_all add: job3_def)
  have "jobs_find ?i (jobs (put_job job s)) = Some job"
    by (rule jobs_find_put_job [OF found i refl])
  then have "jobs_find ?i (jobs ((put_job job s)\<lparr>progress := 1\<rparr>)) = Some job"
    by simp
  from jobs_find_put_job [OF this j3(1) j3(4)]
  have f3: "jobs_find ?i (jobs s3) = Some job3"
    by (simp add: s3_def)
  have s3: "layer s3 = None" "selection (jobs s3) = selection (jobs s)"
    "slot_exceptions s3 = slot_exceptions s"
    using lay by (simp_all add: s3_def put_job_def jobs_put_def)
  have f5: "jobs_find ?i (jobs s5) = Some job3" "layer s5 = None"
    "selection (jobs s5) = Some (?i, 0)" "slot_exceptions s5 = slot_exceptions s"
    using f3 s3 by (simp_all add: s5_def jobs_find_def)
  have hjf: "handle_job_finished env job3 s3 = s3"
    using j3(2) by (simp add: handle_job_finished_def)
  have post: "finished_post_processing m job (put_job job s) = Return (job, put_job job s)"
    using kind by (simp add: finished_post_processing_def)
  have "handle_message env m s = handle_finished env m job s"
    using found ev by (simp add: handle_message_def)
  also have "\<dots> = Return (jobs_select ?i 0 s3)"
    unfolding handle_finished_def Let_def
    using img post j3 hjf s3(1) auto ne kind
    by (simp add: job3_def [symmetric] s3_def [symmetric])
  finally have hm: "handle_message env m s = Return (jobs_select ?i 0 s3)" .
  have up: "update_preview s5 = Raise IndexError s5"
    using show_preview_no_results(2) [OF f5(1) j3(3) f5(2), of 0] f5(3)
    by (simp add: update_preview_def)
  have js: "jobs_select ?i 0 s3 = s5\<lparr>slot_exceptions := slot_exceptions s @ [IndexError]\<rparr>"
    using sel s3(2) up f5(4) by (simp add: jobs_select_def s5_def [symmetric])
  let ?s6 = "s5\<lparr>slot_exceptions := slot_exceptions s @ [IndexError]\<rparr>"
  have f6: "jobs_find ?i (jobs ?s6) = Some job3" "layer ?s6 = None"
    "selection (jobs ?s6) = Some (?i, 0)"
    using f5 by simp_all
  have again: "raised (show_preview ?i 0 ?s6) = Some IndexError"
    by (rule show_preview_no_results(1) [OF f6(1) j3(3)])
  then have again2: "raised (update_preview ?s6) = Some IndexError"
    using f6(3) by (simp add: update_preview_def)
  show "raised (handle_message env m s) = None
   \<and> slot_exceptions (state_of (handle_message env m s)) = slot_exceptions s @ [IndexError]
   \<and> jobs_find (message_job_id m) (jobs (state_of (handle_message env m s)))
       = Some (job\<lparr>job_state := JobState_finished\<rparr>)
   \<and> selection (jobs (state_of (handle_message env m s))) = Some (message_job_id m, 0)
   \<and> layer (state_of (handle_message env m s)) = None
   \<and> raised (update_preview (state_of (handle_message env m s))) = Some IndexError
   \<and> raised (show_preview (message_job_id m) 0 (state_of (handle_message env m s)))
       = Some IndexError"
    unfolding hm js using f6 again again2 by (simp add: job3_def)
qed

theorem finished_without_images_auto_preview_witness:
  "raised (handle_message example_env (example_finished ''a'') example_queue_model) = None
   \<and> slot_exceptions example_queue_model = []
   \<and> slot_exceptions (state_of
         (handle_message example_env (example_finished ''a'') example_queue_model))
       = [IndexError]
   \<and> raised (update_preview (state_of
         (handle_message example_env (example_finished ''a'') example_queue_model)))
       = Some IndexError
   \<and> map job_state (entries (jobs (state_of
         (handle_message example_env (example_finished ''a'') example_queue_model))))
       = [JobState_finished, JobState_executing, JobState_finished, JobState_queued]
   \<and> map job_results (entries (jobs example_queue_model)) = [[], [], [], []]"
proof -
  let ?job = "example_job 0 ''a'' JobKind_diffusion JobState_queued"
  have h: "jobs_find (message_job_id (example_finished ''a'')) (jobs example_queue_model)
             = Some ?job \<and> job_kind ?job = JobKind_diffusion
     \<and> message_event (example_finished ''a'') = ClientEvent_finished
     \<and> message_images (example_finished ''a'') = [] \<and> job_results ?job = []
     \<and> auto_preview (settings example_env) \<and> layer example_queue_model = None
     \<and> message_job_id (example_finished ''a'') \<noteq> []
     \<and> selection (jobs example_queue_model) \<noteq> Some (message_job_id (example_finished ''a''), 0)"
    by (simp add: jobs_find_def example_finished_def example_queue_model_def example_job_def
        new_job_def example_model_def example_env_def example_settings_def)
  have e: "slot_exceptions example_queue_model = []"
    "map job_results (entries (jobs example_queue_model)) = [[], [], [], []]"
    by (simp_all add: example_queue_model_def example_model_def example_job_def new_job_def)
  note t = finished_without_images_auto_preview [of "example_finished ''a''" example_queue_model
      ?job example_env]
  have 1: "raised (handle_message example_env (example_finished ''a'') example_queue_model) = None"
    and 2: "slot_exceptions (state_of
         (handle_message example_env (example_finished ''a'') example_queue_model))
       = slot_exceptions example_queue_model @ [IndexError]"
    and 3: "raised (update_preview (state_of
         (handle_message example_env (example_finished ''a'') example_queue_model)))
       = Some IndexError"
    using t h by blast+
  have 4: "map job_state (entries (jobs (state_of
         (handle_message example_env (example_finished ''a'') example_queue_model))))
       = [JobState_finished, JobState_executing, JobState_finished, JobState_queued]"
    by (simp add: handle_message_def handle_finished_def finished_post_processing_def
        handle_job_finished_def jobs_select_def update_preview_def show_preview_def py_index_def
        put_job_def jobs_put_def jobs_find_def example_finished_def example_queue_model_def
        example_job_def new_job_def example_model_def example_env_def example_settings_def
        Let_def)
  show ?thesis
    using 1 2 3 4 e by simp
qed

lemma handle_message_finished:
  "jobs_find (message_job_id m) (jobs s) = Some job \<Longrightarrow> message_event m = ClientEvent_finished
     \<Longrightarrow> handle_message env m s = handle_finished env m job s"
  by (simp add: handle_message_def)

lemma finished_post_processing_control:
  assumes "job_kind job = JobKind_control_layer" and "job_control job = Some c"
  shows "raised (finished_post_processing m job s) = None"
proof -
  from assms obtain l s0 where a: "add_control_layer job (message_result m) s = Inr (l, s0)"
    by (cases "if control_mode c = ControlMode_pose then message_result m else None";
        cases "job_results job = []")
      (auto simp: add_control_layer_def insert_layer_def insert_vector_layer_def Let_def)
  show ?thesis
    using assms a by (simp add: finished_post_processing_def Let_def)
qed

lemma finished_post_processing_kind:
  "finished_post_processing m job s = Return (j1, s1) \<Longrightarrow> job_kind j1 = job_kind job"
  by (auto simp: finished_post_processing_def Let_def
      split: if_splits option.splits sum.splits outcome.splits prod.splits)

lemma handle_finished_not_diffusion:
  assumes "job_kind job \<noteq> JobKind_diffusion"
  shows "raised (handle_finished env m job s)
           = raised (finished_post_processing m
               (if message_images m \<noteq> [] then job\<lparr>job_results := message_images m\<rparr> else job)
               (put_job (if message_images m \<noteq> []
                         then job\<lparr>job_results := message_images m\<rparr> else job) s))"
proof -
  let ?job1 = "if message_images m \<noteq> [] then job\<lparr>job_results := message_images m\<rparr> else job"
  have k: "job_kind ?job1 = job_kind job" by simp
  show ?thesis
  proof (cases "finished_post_processing m ?job1 (put_job ?job1 s)")
    case (Raise e p)
    then show ?thesis
      by (simp add: handle_finished_def Let_def case_prod_beta)
  next
    case (Return p)
    obtain j1 s1 where p: "p = (j1, s1)" by (cases p)
    from finished_post_processing_kind [OF Return [unfolded p]] k assms
    have "job_kind j1 \<noteq> JobKind_diffusion" by simp
    then show ?thesis
      using Return p by (simp add: handle_finished_def Let_def)
  qed
qed


text \<open>
  For the other kinds of job the finished event without images is handled as section 4.4
  has it: for a control-layer job and for a live-preview job \<open>handle_message\<close> returns
  without raising, and for an upscaling job that has no results the assertion of
  \<open>add_upscale_layer\<close> fails.
\<close>

theorem finished_without_images_other_kinds:
  "jobs_find (message_job_id m) (jobs s) = Some job \<and> message_event m = ClientEvent_finished
     \<and> message_images m = [] \<longrightarrow>
   (job_kind job = JobKind_control_layer \<and> job_control job \<noteq> None \<longrightarrow>
      raised (handle_message env m s) = None)
   \<and> (job_kind job = JobKind_live_preview \<longrightarrow> raised (handle_message env m s) = None)
   \<and> (job_kind job = JobKind_upscaling \<and> job_results job = [] \<longrightarrow>
      raised (handle_message env m s)
        = Some (AssertionError ''Upscaling job did not produce an image''))"
proof (intro impI, elim conjE)
  assume found: "jobs_find (message_job_id m) (jobs s) = Some job"
    and ev: "message_event m = ClientEvent_finished" and img: "message_images m = []"
  have hm: "handle_message env m s = handle_finished env m job s"
    by (rule handle_message_finished [OF found ev])
  have post: "job_kind job \<noteq> JobKind_diffusion \<Longrightarrow>
      raised (handle_message env m s) = raised (finished_post_processing m job (put_job job s))"
    using handle_finished_not_diffusion [of job env m s] img hm by simp
  have c: "job_kind job = JobKind_control_layer \<and> job_control job \<noteq> None \<longrightarrow>
      raised (handle_message env m s) = None"
    using post finished_post_processing_control [of job _ m "put_job job s"] by auto
  have l: "job_kind job = JobKind_live_preview \<longrightarrow> raised (handle_message env m s) = None"
    using post by (auto simp: finished_post_processing_def)
  have u: "job_kind job = JobKind_upscaling \<and> job_results job = [] \<longrightarrow>
      raised (handle_message env m s)
        = Some (AssertionError ''Upscaling job did not produce an image'')"
    using post by (auto simp: finished_post_processing_def add_upscale_layer_def)
  show "(job_kind job = JobKind_control_layer \<and> job_control job \<noteq> None \<longrightarrow>
      raised (handle_message env m s) = None)
   \<and> (job_kind job = JobKind_live_preview \<longrightarrow> raised (handle_message env m s) = None)
   \<and> (job_kind job = JobKind_upscaling \<and> job_results job = [] \<longrightarrow>
      raised (handle_message env m s)
        = Some (AssertionError ''Upscaling job did not produce an image''))"
    using c l u by blast
qed

theorem finished_without_images_other_kinds_witness:
  "raised (handle_message example_env (example_finished ''k'') example_control_model) = None
   \<and> raised (handle_message example_env (example_finished ''u'') example_control_model)
       = Some (AssertionError ''Upscaling job did not produce an image'')
   \<and> map job_id (entries (jobs (state_of
         (handle_message example_env (example_finished ''k'') example_control_model))))
       = [Some ''u'']
   \<and> map control_layer_id (control (state_of
         (handle_message example_env (example_finished ''k'') example_control_model)))
       = [Some (Node 0)]"
proof -
  let ?jk = "(example_job 0 ''k'' JobKind_control_layer JobState_executing)
               \<lparr>job_control := Some example_control\<rparr>"
  let ?ju = "example_job 1 ''u'' JobKind_upscaling JobState_executing"
  have k: "jobs_find (message_job_id (example_finished ''k'')) (jobs example_control_model) = Some ?jk
      \<and> message_event (example_finished ''k'') = ClientEvent_finished
      \<and> message_images (example_finished ''k'') = []"
    by (simp add: jobs_find_def example_finished_def example_control_model_def example_job_def
        new_job_def)
  have u: "jobs_find (message_job_id (example_finished ''u'')) (jobs example_control_model) = Some ?ju
      \<and> message_event (example_finished ''u'') = ClientEvent_finished
      \<and> message_images (example_finished ''u'') = []"
    by (simp add: jobs_find_def example_finished_def example_control_model_def example_job_def
        new_job_def)
  have kinds: "job_kind ?jk = JobKind_control_layer \<and> job_control ?jk \<noteq> None"
    "job_kind ?ju = JobKind_upscaling \<and> job_results ?ju = []"
    by (simp_all add: example_job_def new_job_def)
  have 1: "raised (handle_message example_env (example_finished ''k'') example_control_model) = None"
    using finished_without_images_other_kinds [of "example_finished ''k''" example_control_model
        ?jk example_env] k kinds(1) by blast
  have 2: "raised (handle_message example_env (example_finished ''u'') example_control_model)
       = Some (AssertionError ''Upscaling job did not produce an image'')"
    using finished_without_images_other_kinds [of "example_finished ''u''" example_control_model
        ?ju example_env] u kinds(2) by blast
  have 3: "map job_id (entries (jobs (state_of
         (handle_message example_env (example_finished ''k'') example_control_model))))
       = [Some ''u'']
   \<and> map control_layer_id (control (state_of
         (handle_message example_env (example_finished ''k'') example_control_model)))
       = [Some (Node 0)]"
    by (simp add: handle_message_def handle_finished_def finished_post_processing_def
        add_control_layer_def handle_job_finished_def put_job_def put_control_def jobs_put_def
        jobs_remove_def jobs_find_def example_finished_def example_control_model_def
        example_control_def example_job_def new_job_def example_model_def example_doc_def Let_def)
  show ?thesis
    using 1 2 3 by blast
qed

section \<open>Recording: draining the keyframe buffer\<close>

lemma wait_until_keyframe_confirmed:
  "doc_keyframe_answers d = replicate n False @ True # rest \<Longrightarrow>
     wait_until_keyframe l d
       = Some (d\<lparr>doc_keyframe_answers := rest,
                  doc_calls := doc_calls d
                    @ replicate n (call_hasKeyframeAtTime l (doc_current_time d) False)
                    @ [call_hasKeyframeAtTime l (doc_current_time d) True]\<rparr>)"
proof (induction n arbitrary: d)
  case 0
  then show ?case
    by (subst wait_until_keyframe.simps) (simp add: hasKeyframeAtTime_def doc_call_def)
next
  case (Suc n)
  let ?d1 = "doc_call (call_hasKeyframeAtTime l (doc_current_time d) False)
               (d\<lparr>doc_keyframe_answers := replicate n False @ True # rest\<rparr>)"
  have a: "doc_keyframe_answers ?d1 = replicate n False @ True # rest"
    by (simp add: doc_call_def)
  have "wait_until_keyframe l d = wait_until_keyframe l ?d1"
    using Suc.prems by (subst wait_until_keyframe.simps) (simp add: hasKeyframeAtTime_def)
  also have "\<dots> = Some (?d1\<lparr>doc_keyframe_answers := rest,
                  doc_calls := doc_calls ?d1
                    @ replicate n (call_hasKeyframeAtTime l (doc_current_time ?d1) False)
                    @ [call_hasKeyframeAtTime l (doc_current_time ?d1) True]\<rparr>)"
    by (rule Suc.IH [OF a])
  finally show ?case
    by (simp add: doc_call_def replicate_app_Cons_same)
qed

lemma wait_until_keyframe_returns:
  "wait_until_keyframe l d = Some d1 \<Longrightarrow> True \<in> set (doc_keyframe_answers d)"
proof (erule wait_until_keyframe.raw_induct [rotated])
  fix wait l d d1
  assume IH: "\<And>l d d1. wait l d = Some d1 \<Longrightarrow> True \<in> set (doc_keyframe_answers d)"
    and body: "(case hasKeyframeAtTime l (doc_current_time d) d of
                  (confirmed, d1) \<Rightarrow> if confirmed then Some d1 else wait l d1) = Some d1"
  show "True \<in> set (doc_keyframe_answers d)"
  proof (cases "doc_keyframe_answers d")
    case Nil
    with body have "wait l (doc_call (call_hasKeyframeAtTime l (doc_current_time d) False) d)
        = Some d1"
      by (simp add: hasKeyframeAtTime_def)
    from IH [OF this] Nil show ?thesis by (simp add: doc_call_def)
  next
    case (Cons a as)
    show ?thesis
    proof (cases a)
      case True
      with Cons show ?thesis by simp
    next
      case False
      with body Cons have "wait l (doc_call (call_hasKeyframeAtTime l (doc_current_time d) False)
          (d\<lparr>doc_keyframe_answers := as\<rparr>)) = Some d1"
        by (simp add: hasKeyframeAtTime_def)
      from IH [OF this] Cons show ?thesis by (simp add: doc_call_def)
    qed
  qed
qed

lemma wait_until_keyframe_never:
  "True \<notin> set (doc_keyframe_answers d) \<Longrightarrow> wait_until_keyframe l d = None"
  using wait_until_keyframe_returns [of l d] by (cases "wait_until_keyframe l d") auto

lemma insert_frames_loop_calls:
  "length delays = length frames \<Longrightarrow>
   doc_keyframe_answers d = host_answers delays @ rest \<Longrightarrow>
     insert_frames_loop l frames d
       = Some (d\<lparr>doc_current_time := doc_current_time d + int (length frames),
                  doc_keyframe_answers := rest,
                  doc_calls := doc_calls d
                    @ expected_drain_calls l (doc_current_time d) frames delays\<rparr>)"
proof (induction frames arbitrary: delays d)
  case Nil
  then show ?case by simp
next
  case (Cons f frames)
  obtain img bnds where f: "f = (img, bnds)" by (cases f)
  from Cons.prems(1) obtain n ds where delays: "delays = n # ds" "length ds = length frames"
    by (cases delays) auto
  let ?d0 = "doc_call (call_trigger ''add_duplicate_frame'')
               (doc_call (call_set_layer_content l img bnds) d)"
  have a0: "doc_keyframe_answers ?d0 = replicate n False @ True # (host_answers ds @ rest)"
    using Cons.prems(2) delays by (simp add: doc_call_def)
  let ?d1 = "?d0\<lparr>doc_keyframe_answers := host_answers ds @ rest,
                  doc_calls := doc_calls ?d0
                    @ replicate n (call_hasKeyframeAtTime l (doc_current_time ?d0) False)
                    @ [call_hasKeyframeAtTime l (doc_current_time ?d0) True]\<rparr>"
  have w: "wait_until_keyframe l ?d0 = Some ?d1"
    by (rule wait_until_keyframe_confirmed [OF a0])
  let ?d2 = "set_current_time (doc_current_time ?d1 + 1) ?d1"
  have a2: "doc_keyframe_answers ?d2 = host_answers ds @ rest"
    by (simp add: set_current_time_def doc_call_def)
  have step: "insert_frames_loop l (f # frames) d = insert_frames_loop l frames ?d2"
    unfolding f using w by simp
  show ?case
    unfolding step Cons.IH [OF delays(2) a2]
    by (simp add: f delays set_current_time_def doc_call_def)
qed

lemma written_frames_append:
  "written_frames (xs @ ys) = written_frames xs @ written_frames ys"
  by (induction xs rule: written_frames.induct) simp_all

lemma cursor_positions_append:
  "cursor_positions (xs @ ys) = cursor_positions xs @ cursor_positions ys"
  by (induction xs rule: cursor_positions.induct) simp_all

lemma written_frames_polls [simp]:
  "written_frames (replicate n (call_hasKeyframeAtTime l t a)) = []"
  by (induction n) simp_all

lemma cursor_positions_polls [simp]:
  "cursor_positions (replicate n (call_hasKeyframeAtTime l t a)) = []"
  by (induction n) simp_all

lemma written_frames_expected:
  "length delays = length frames \<Longrightarrow>
     written_frames (expected_drain_calls l t frames delays) = frames"
proof (induction frames arbitrary: delays t)
  case Nil
  then show ?case by simp
next
  case (Cons f frames)
  obtain img bnds where f: "f = (img, bnds)" by (cases f)
  from Cons.prems obtain n ds where d: "delays = n # ds" "length ds = length frames"
    by (cases delays) auto
  show ?case
    using Cons.IH [OF d(2)] by (simp add: f d written_frames_append)
qed

lemma cursor_positions_expected:
  "length delays = length frames \<Longrightarrow>
     cursor_positions (expected_drain_calls l t frames delays)
       = map (\<lambda>k. t + 1 + int k) [0..<length frames]"
proof (induction frames arbitrary: delays t)
  case Nil
  then show ?case by simp
next
  case (Cons f frames)
  obtain img bnds where f: "f = (img, bnds)" by (cases f)
  from Cons.prems obtain n ds where d: "delays = n # ds" "length ds = length frames"
    by (cases delays) auto
  have m: "map (\<lambda>k. t + 1 + int k) [0..<Suc (length frames)]
             = (t + 1) # map (\<lambda>k. t + 1 + 1 + int k) [0..<length frames]"
    by (simp add: map_upt_Suc add.commute add.left_commute del: upt_Suc)
  show ?case
    using Cons.IH [OF d(2), of "t + 1"] m by (simp add: f d cursor_positions_append)
qed

lemma priv_insert_frames_into_timeline_calls:
  assumes "length delays = length frames"
    and "doc_keyframe_answers d = host_answers delays @ rest"
  shows "priv_insert_frames_into_timeline l frames d
       = Some (d\<lparr>doc_current_time := doc_last_keyframe d l + int (length frames),
                  doc_end_time := doc_last_keyframe d l + int (length frames),
                  doc_keyframe_answers := rest,
                  doc_calls := doc_calls d
                    @ [call_set_current_time (doc_last_keyframe d l), call_process_events]
                    @ expected_drain_calls l (doc_last_keyframe d l) frames delays
                    @ [call_set_end_time (doc_last_keyframe d l + int (length frames))]\<rparr>)"
proof -
  let ?d2 = "(doc_call call_process_events (set_current_time (doc_last_keyframe d l) d))
               \<lparr>doc_active_layer := l\<rparr>"
  have a: "doc_keyframe_answers ?d2 = host_answers delays @ rest"
    using assms(2) by (simp add: doc_call_def set_current_time_def)
  have eq: "priv_insert_frames_into_timeline l frames d
      = (case insert_frames_loop l frames ?d2 of
           None \<Rightarrow> None
         | Some d3 \<Rightarrow>
             Some (set_end_time (doc_current_time (d3\<lparr>doc_active_layer := doc_active_layer d\<rparr>))
                     (d3\<lparr>doc_active_layer := doc_active_layer d\<rparr>)))"
    by (simp add: priv_insert_frames_into_timeline_def Let_def set_current_time_def doc_call_def
        split: option.splits)
  show ?thesis
    unfolding eq insert_frames_loop_calls [OF assms(1) a]
    by (simp add: set_current_time_def set_end_time_def doc_call_def)
qed

lemma drain_never_confirmed:
  "frames \<noteq> [] \<Longrightarrow> True \<notin> set (doc_keyframe_answers d) \<Longrightarrow>
     priv_insert_frames_into_timeline l frames d = None"
proof -
  assume ne: "frames \<noteq> []" and no: "True \<notin> set (doc_keyframe_answers d)"
  obtain img bnds fs where f: "frames = (img, bnds) # fs"
    using ne by (cases frames) auto
  let ?d2 = "(doc_call call_process_events (set_current_time (doc_last_keyframe d l) d))
               \<lparr>doc_active_layer := l\<rparr>"
  let ?d3 = "doc_call (call_trigger ''add_duplicate_frame'')
               (doc_call (call_set_layer_content l img bnds) ?d2)"
  have "True \<notin> set (doc_keyframe_answers ?d3)"
    using no by (simp add: doc_call_def set_current_time_def)
  from wait_until_keyframe_never [OF this] have "insert_frames_loop l frames ?d2 = None"
    by (simp add: f)
  then show ?thesis
    by (simp add: priv_insert_frames_into_timeline_def Let_def)
qed


section \<open>Recording: the layer of the drain\<close>

lemma priv_add_recording_layer_attached:
  "recording_layer (live s) = Some r \<Longrightarrow> \<not> doc_detached (doc s) r \<Longrightarrow>
     priv_add_recording_layer restore_active s = (r, s)"
  by (simp add: priv_add_recording_layer_def)

lemma priv_add_recording_layer_created:
  assumes "\<forall>r. recording_layer (live s) = Some r \<longrightarrow> doc_detached (doc s) r"
  shows "fst (priv_add_recording_layer restore_active s) = Node (doc_next_node (doc s))"
    and "doc_calls (doc (snd (priv_add_recording_layer restore_active s)))
           = doc_calls (doc s)
             @ [call_insert_layer (Node (doc_next_node (doc s))) (''[Recording] '' @ prompt s)
                  None True (Some (doc_active_layer (doc s))),
                call_enableAnimation (Node (doc_next_node (doc s))),
                call_setPinnedToTimeline (Node (doc_next_node (doc s))) True]"
    and "doc_active_layer (doc (snd (priv_add_recording_layer restore_active s)))
           = (if restore_active then doc_active_layer (doc s)
              else Node (doc_next_node (doc s)))"
proof -
  have rl: "(case recording_layer (live s) of None \<Rightarrow> None
             | Some l \<Rightarrow> if doc_detached (doc s) l then None else Some l) = None"
    using assms by (cases "recording_layer (live s)") simp_all
  show "fst (priv_add_recording_layer restore_active s) = Node (doc_next_node (doc s))"
    and "doc_calls (doc (snd (priv_add_recording_layer restore_active s)))
           = doc_calls (doc s)
             @ [call_insert_layer (Node (doc_next_node (doc s))) (''[Recording] '' @ prompt s)
                  None True (Some (doc_active_layer (doc s))),
                call_enableAnimation (Node (doc_next_node (doc s))),
                call_setPinnedToTimeline (Node (doc_next_node (doc s))) True]"
    and "doc_active_layer (doc (snd (priv_add_recording_layer restore_active s)))
           = (if restore_active then doc_active_layer (doc s)
              else Node (doc_next_node (doc s)))"
    unfolding priv_add_recording_layer_def Let_def rl
    by (simp_all add: insert_layer_def doc_call_def Let_def)
qed

lemma priv_add_recording_layer_stored:
  "recording_layer (live (snd (priv_add_recording_layer restore_active s)))
     = Some (fst (priv_add_recording_layer restore_active s))"
  "doc_keyframe_answers (doc (snd (priv_add_recording_layer restore_active s)))
     = doc_keyframe_answers (doc s)"
  "doc_last_keyframe (doc (snd (priv_add_recording_layer restore_active s)))
     = doc_last_keyframe (doc s)"
  by (simp_all add: priv_add_recording_layer_def Let_def insert_layer_def doc_call_def
      split: option.splits)

lemma priv_insert_frames_task:
  assumes "keyframes (live s) \<noteq> []"
  shows "priv_insert_frames s
     = (snd (priv_add_recording_layer False s))
         \<lparr>tasks := tasks s @ [Task_insert_frames_into_timeline
                                 (fst (priv_add_recording_layer False s)) (keyframes (live s))],
          live := (live (snd (priv_add_recording_layer False s)))\<lparr>keyframes := []\<rparr>\<rparr>"
  using assms
  by (simp add: priv_insert_frames_def Let_def eventloop_run_def case_prod_beta
      priv_add_recording_layer_frame)

text \<open>
  Claim C8. \<open>_insert_frames\<close> leaves the keyframe buffer empty whether the buffer held
  frames or not, and so does switching recording off. When the buffer held frames, the
  drain is handed to the event loop with the frames that were buffered and with the
  recording layer, which is then the layer stored in the session: the stored layer when
  it is still attached to the document, and otherwise a layer that is inserted below the
  active layer, enabled for animation and pinned to the timeline. When the host confirms
  the keyframe of every frame after finitely many polls, the drain returns, and the calls
  it has made are: the cursor set to the last keyframe of the layer, then for each frame
  in capture order its pixels written to the layer, the add-keyframe action triggered,
  the polls up to the confirmation and the cursor advanced by one, and at last the end
  time set to the final cursor position. So the frames are written in capture order, the
  cursor visits consecutive positions, and cursor and end time finish at the start
  position plus the number of frames.
\<close>

theorem drain_keyframes:
  "(length delays = length frames \<and> doc_keyframe_answers d = host_answers delays @ rest \<longrightarrow>
      (\<exists>d1. priv_insert_frames_into_timeline l frames d = Some d1
         \<and> doc_calls d1 = doc_calls d
              @ [call_set_current_time (doc_last_keyframe d l), call_process_events]
              @ expected_drain_calls l (doc_last_keyframe d l) frames delays
              @ [call_set_end_time (doc_last_keyframe d l + int (length frames))]
         \<and> written_frames (drop (length (doc_calls d)) (doc_calls d1)) = frames
         \<and> cursor_positions (drop (length (doc_calls d)) (doc_calls d1))
              = map (\<lambda>k. doc_last_keyframe d l + int k) [0..<Suc (length frames)]
         \<and> doc_current_time d1 = doc_last_keyframe d l + int (length frames)
         \<and> doc_end_time d1 = doc_last_keyframe d l + int (length frames)
         \<and> doc_active_layer d1 = doc_active_layer d))
   \<and> keyframes (live (priv_insert_frames s)) = []
   \<and> (keyframes (live s) \<noteq> [] \<longrightarrow>
        tasks (priv_insert_frames s)
          = tasks s @ [Task_insert_frames_into_timeline
                         (fst (priv_add_recording_layer False s)) (keyframes (live s))]
        \<and> recording_layer (live (priv_insert_frames s))
            = Some (fst (priv_add_recording_layer False s))
        \<and> doc (priv_insert_frames s) = doc (snd (priv_add_recording_layer False s)))
   \<and> (recording_layer (live s) = Some r \<and> \<not> doc_detached (doc s) r \<longrightarrow>
        priv_add_recording_layer restore_active s = (r, s))
   \<and> ((\<forall>r. recording_layer (live s) = Some r \<longrightarrow> doc_detached (doc s) r) \<longrightarrow>
        fst (priv_add_recording_layer restore_active s) = Node (doc_next_node (doc s))
        \<and> doc_calls (doc (snd (priv_add_recording_layer restore_active s)))
            = doc_calls (doc s)
              @ [call_insert_layer (Node (doc_next_node (doc s))) (''[Recording] '' @ prompt s)
                   None True (Some (doc_active_layer (doc s))),
                 call_enableAnimation (Node (doc_next_node (doc s))),
                 call_setPinnedToTimeline (Node (doc_next_node (doc s))) True])
   \<and> (keyframes (live s) \<noteq> [] \<and> length delays = length (keyframes (live s))
        \<and> doc_keyframe_answers (doc s) = host_answers delays @ rest \<longrightarrow>
        (\<exists>s2. run_task env (last (tasks (priv_insert_frames s))) (priv_insert_frames s) = Some s2
           \<and> doc_calls (doc s2) = doc_calls (doc (priv_insert_frames s))
                @ [call_set_current_time
                     (doc_last_keyframe (doc s) (fst (priv_add_recording_layer False s))),
                   call_process_events]
                @ expected_drain_calls (fst (priv_add_recording_layer False s))
                    (doc_last_keyframe (doc s) (fst (priv_add_recording_layer False s)))
                    (keyframes (live s)) delays
                @ [call_set_end_time
                     (doc_last_keyframe (doc s) (fst (priv_add_recording_layer False s))
                        + int (length (keyframes (live s))))]
           \<and> doc_end_time (doc s2)
               = doc_last_keyframe (doc s) (fst (priv_add_recording_layer False s))
                   + int (length (keyframes (live s)))))
   \<and> (keyframes (live s) = [] \<longrightarrow> priv_insert_frames s = s)
   \<and> (is_recording (live s) \<longrightarrow> keyframes (live (toggle_record env False s)) = [])"
proof -
  let ?l = "fst (priv_add_recording_layer False s)"
  let ?s1 = "priv_insert_frames s"
  have buffer: "keyframes (live ?s1) = []" "keyframes (live s) = [] \<longrightarrow> ?s1 = s"
    by (simp_all add: priv_insert_frames_def Let_def eventloop_run_def case_prod_beta)
  have task: "keyframes (live s) \<noteq> [] \<longrightarrow>
        tasks ?s1 = tasks s @ [Task_insert_frames_into_timeline ?l (keyframes (live s))]
        \<and> recording_layer (live ?s1) = Some ?l
        \<and> doc ?s1 = doc (snd (priv_add_recording_layer False s))"
  proof
    assume ne: "keyframes (live s) \<noteq> []"
    show "tasks ?s1 = tasks s @ [Task_insert_frames_into_timeline ?l (keyframes (live s))]
        \<and> recording_layer (live ?s1) = Some ?l
        \<and> doc ?s1 = doc (snd (priv_add_recording_layer False s))"
      unfolding priv_insert_frames_task [OF ne]
      by (simp add: priv_add_recording_layer_stored)
  qed
  have layer: "recording_layer (live s) = Some r \<and> \<not> doc_detached (doc s) r \<longrightarrow>
        priv_add_recording_layer restore_active s = (r, s)"
    using priv_add_recording_layer_attached [of s r restore_active] by blast
  have created: "(\<forall>r. recording_layer (live s) = Some r \<longrightarrow> doc_detached (doc s) r) \<longrightarrow>
        fst (priv_add_recording_layer restore_active s) = Node (doc_next_node (doc s))
        \<and> doc_calls (doc (snd (priv_add_recording_layer restore_active s)))
            = doc_calls (doc s)
              @ [call_insert_layer (Node (doc_next_node (doc s))) (''[Recording] '' @ prompt s)
                   None True (Some (doc_active_layer (doc s))),
                 call_enableAnimation (Node (doc_next_node (doc s))),
                 call_setPinnedToTimeline (Node (doc_next_node (doc s))) True]"
    using priv_add_recording_layer_created(1,2) [of s restore_active] by blast
  have stop: "is_recording (live s) \<longrightarrow> keyframes (live (toggle_record env False s)) = []"
    by (simp add: priv_insert_frames_def Let_def eventloop_run_def case_prod_beta)
  have drain: "length delays = length frames \<and> doc_keyframe_answers d = host_answers delays @ rest
      \<longrightarrow> (\<exists>d1. priv_insert_frames_into_timeline l frames d = Some d1
         \<and> doc_calls d1 = doc_calls d
              @ [call_set_current_time (doc_last_keyframe d l), call_process_events]
              @ expected_drain_calls l (doc_last_keyframe d l) frames delays
              @ [call_set_end_time (doc_last_keyframe d l + int (length frames))]
         \<and> written_frames (drop (length (doc_calls d)) (doc_calls d1)) = frames
         \<and> cursor_positions (drop (length (doc_calls d)) (doc_calls d1))
              = map (\<lambda>k. doc_last_keyframe d l + int k) [0..<Suc (length frames)]
         \<and> doc_current_time d1 = doc_last_keyframe d l + int (length frames)
         \<and> doc_end_time d1 = doc_last_keyframe d l + int (length frames)
         \<and> doc_active_layer d1 = doc_active_layer d)"
  proof (intro impI, elim conjE)
    assume len: "length delays = length frames"
      and ans: "doc_keyframe_answers d = host_answers delays @ rest"
    have m: "map (\<lambda>k. doc_last_keyframe d l + int k) [0..<Suc (length frames)]
        = doc_last_keyframe d l # map (\<lambda>k. doc_last_keyframe d l + 1 + int k) [0..<length frames]"
      by (simp add: map_upt_Suc add.commute add.left_commute del: upt_Suc)
    show "\<exists>d1. priv_insert_frames_into_timeline l frames d = Some d1
         \<and> doc_calls d1 = doc_calls d
              @ [call_set_current_time (doc_last_keyframe d l), call_process_events]
              @ expected_drain_calls l (doc_last_keyframe d l) frames delays
              @ [call_set_end_time (doc_last_keyframe d l + int (length frames))]
         \<and> written_frames (drop (length (doc_calls d)) (doc_calls d1)) = frames
         \<and> cursor_positions (drop (length (doc_calls d)) (doc_calls d1))
              = map (\<lambda>k. doc_last_keyframe d l + int k) [0..<Suc (length frames)]
         \<and> doc_current_time d1 = doc_last_keyframe d l + int (length frames)
         \<and> doc_end_time d1 = doc_last_keyframe d l + int (length frames)
         \<and> doc_active_layer d1 = doc_active_layer d"
      unfolding priv_insert_frames_into_timeline_calls [OF len ans] m
      by (simp add: written_frames_append cursor_positions_append
          written_frames_expected [OF len] cursor_positions_expected [OF len])
  qed
  have run: "keyframes (live s) \<noteq> [] \<and> length delays = length (keyframes (live s))
        \<and> doc_keyframe_answers (doc s) = host_answers delays @ rest \<longrightarrow>
        (\<exists>s2. run_task env (last (tasks ?s1)) ?s1 = Some s2
           \<and> doc_calls (doc s2) = doc_calls (doc ?s1)
                @ [call_set_current_time (doc_last_keyframe (doc s) ?l), call_process_events]
                @ expected_drain_calls ?l (doc_last_keyframe (doc s) ?l) (keyframes (live s)) delays
                @ [call_set_end_time (doc_last_keyframe (doc s) ?l
                     + int (length (keyframes (live s))))]
           \<and> doc_end_time (doc s2)
               = doc_last_keyframe (doc s) ?l + int (length (keyframes (live s))))"
  proof (intro impI, elim conjE)
    assume ne: "keyframes (live s) \<noteq> []"
      and len: "length delays = length (keyframes (live s))"
      and ans: "doc_keyframe_answers (doc s) = host_answers delays @ rest"
    from task ne have t: "last (tasks ?s1)
        = Task_insert_frames_into_timeline ?l (keyframes (live s))"
      and d: "doc ?s1 = doc (snd (priv_add_recording_layer False s))"
      by simp_all
    have a: "doc_keyframe_answers (doc ?s1) = host_answers delays @ rest"
      and k: "doc_last_keyframe (doc ?s1) = doc_last_keyframe (doc s)"
      unfolding d using ans by (simp_all add: priv_add_recording_layer_stored)
    show "\<exists>s2. run_task env (last (tasks ?s1)) ?s1 = Some s2
           \<and> doc_calls (doc s2) = doc_calls (doc ?s1)
                @ [call_set_current_time (doc_last_keyframe (doc s) ?l), call_process_events]
                @ expected_drain_calls ?l (doc_last_keyframe (doc s) ?l) (keyframes (live s)) delays
                @ [call_set_end_time (doc_last_keyframe (doc s) ?l
                     + int (length (keyframes (live s))))]
           \<and> doc_end_time (doc s2)
               = doc_last_keyframe (doc s) ?l + int (length (keyframes (live s)))"
      unfolding t run_task.simps priv_insert_frames_into_timeline_calls [OF len a] k
      by simp
  qed
  show ?thesis
    using drain buffer task layer created run stop by blast
qed

theorem drain_keyframes_witness:
  "keyframes (live example_recording_model)
     = [(Image 1, Bounds 0 0 512 512), (Image 2, Bounds 0 0 512 512)]
   \<and> recording_layer (live example_recording_model) = None
   \<and> keyframes (live (priv_insert_frames example_recording_model)) = []
   \<and> tasks (priv_insert_frames example_recording_model)
       = [Task_insert_frames_into_timeline (Node 1)
            [(Image 1, Bounds 0 0 512 512), (Image 2, Bounds 0 0 512 512)]]
   \<and> recording_layer (live (priv_insert_frames example_recording_model)) = Some (Node 1)
   \<and> doc_calls (doc (priv_insert_frames example_recording_model))
       = [call_insert_layer (Node 1) ''[Recording] a cat'' None True (Some (Node 0)),
          call_enableAnimation (Node 1), call_setPinnedToTimeline (Node 1) True]
   \<and> (\<exists>s2. run_task example_env
              (Task_insert_frames_into_timeline (Node 1)
                 [(Image 1, Bounds 0 0 512 512), (Image 2, Bounds 0 0 512 512)])
              (priv_insert_frames example_recording_model) = Some s2
         \<and> doc_calls (doc s2)
             = [call_insert_layer (Node 1) ''[Recording] a cat'' None True (Some (Node 0)),
                call_enableAnimation (Node 1), call_setPinnedToTimeline (Node 1) True,
                call_set_current_time 0, call_process_events,
                call_set_layer_content (Node 1) (Image 1) (Bounds 0 0 512 512),
                call_trigger ''add_duplicate_frame'',
                call_hasKeyframeAtTime (Node 1) 0 False, call_hasKeyframeAtTime (Node 1) 0 True,
                call_set_current_time 1,
                call_set_layer_content (Node 1) (Image 2) (Bounds 0 0 512 512),
                call_trigger ''add_duplicate_frame'',
                call_hasKeyframeAtTime (Node 1) 1 True,
                call_set_current_time 2, call_set_end_time 2]
         \<and> doc_end_time (doc s2) = 2)
   \<and> (\<exists>d1. priv_insert_frames_into_timeline (Node 5)
            [(Image 1, Bounds 0 0 512 512), (Image 2, Bounds 0 0 512 512)] example_recording_doc
          = Some d1
      \<and> written_frames (doc_calls d1)
          = [(Image 1, Bounds 0 0 512 512), (Image 2, Bounds 0 0 512 512)]
      \<and> cursor_positions (doc_calls d1) = [0, 1, 2]
      \<and> doc_current_time d1 = 2 \<and> doc_end_time d1 = 2)"
proof -
  let ?frames = "[(Image 1, Bounds 0 0 512 512), (Image 2, Bounds 0 0 512 512)]"
  let ?m = example_recording_model
  let ?l = "fst (priv_add_recording_layer False ?m)"
  have k: "keyframes (live ?m) = ?frames" "tasks ?m = []" "recording_layer (live ?m) = None"
    "doc ?m = example_recording_doc" "prompt ?m = ''a cat''"
    by (simp_all add: example_recording_model_def example_live_model_def example_model_def)
  have d: "doc_calls example_recording_doc = []" "doc_next_node example_recording_doc = 1"
    "doc_active_layer example_recording_doc = Node 0"
    "\<And>l. doc_last_keyframe example_recording_doc l = 0"
    "doc_keyframe_answers example_recording_doc = host_answers [1, 0] @ []"
    by (simp_all add: example_recording_doc_def example_doc_def)
  have h: "length [1, 0 :: nat] = length ?frames
      \<and> doc_keyframe_answers example_recording_doc = host_answers [1, 0] @ []"
    using d(5) by simp
  have ne: "keyframes (live ?m) \<noteq> []"
    unfolding k(1) by simp
  have none: "\<forall>r. recording_layer (live ?m) = Some r \<longrightarrow> doc_detached (doc ?m) r"
    unfolding k(3) by simp
  have hm: "keyframes (live ?m) \<noteq> [] \<and> length [1, 0 :: nat] = length (keyframes (live ?m))
      \<and> doc_keyframe_answers (doc ?m) = host_answers [1, 0] @ []"
    unfolding k(1) k(4) using d(5) by simp
  note t = drain_keyframes [where delays = "[1, 0]" and frames = ?frames
      and d = example_recording_doc and rest = "[]" and l = "Node 5" and s = ?m
      and restore_active = False and env = example_env]
  have buf: "keyframes (live (priv_insert_frames ?m)) = []"
    using t by blast
  have l: "?l = Node (doc_next_node (doc ?m))"
    and lc: "doc_calls (doc (snd (priv_add_recording_layer False ?m)))
            = doc_calls (doc ?m)
              @ [call_insert_layer (Node (doc_next_node (doc ?m))) (''[Recording] '' @ prompt ?m)
                   None True (Some (doc_active_layer (doc ?m))),
                 call_enableAnimation (Node (doc_next_node (doc ?m))),
                 call_setPinnedToTimeline (Node (doc_next_node (doc ?m))) True]"
    using t none by blast+
  have task: "tasks (priv_insert_frames ?m)
          = tasks ?m @ [Task_insert_frames_into_timeline ?l (keyframes (live ?m))]"
    and rl: "recording_layer (live (priv_insert_frames ?m)) = Some ?l"
    and dd: "doc (priv_insert_frames ?m) = doc (snd (priv_add_recording_layer False ?m))"
    using t ne by blast+
  have l1: "?l = Node 1"
    unfolding l k(4) d(2) by simp
  have calls: "doc_calls (doc (priv_insert_frames ?m))
       = [call_insert_layer (Node 1) ''[Recording] a cat'' None True (Some (Node 0)),
          call_enableAnimation (Node 1), call_setPinnedToTimeline (Node 1) True]"
    unfolding dd lc k(4) k(5) d(1,2,3) by simp
  have task1: "tasks (priv_insert_frames ?m) = [Task_insert_frames_into_timeline (Node 1) ?frames]"
    unfolding task l1 k(1,2) by simp
  have rl1: "recording_layer (live (priv_insert_frames ?m)) = Some (Node 1)"
    unfolding rl l1 by simp
  from t hm obtain s2 where s2:
    "run_task example_env (last (tasks (priv_insert_frames ?m))) (priv_insert_frames ?m) = Some s2"
    "doc_calls (doc s2) = doc_calls (doc (priv_insert_frames ?m))
        @ [call_set_current_time (doc_last_keyframe (doc ?m) ?l), call_process_events]
        @ expected_drain_calls ?l (doc_last_keyframe (doc ?m) ?l) (keyframes (live ?m)) [1, 0]
        @ [call_set_end_time (doc_last_keyframe (doc ?m) ?l + int (length (keyframes (live ?m))))]"
    "doc_end_time (doc s2) = doc_last_keyframe (doc ?m) ?l + int (length (keyframes (live ?m)))"
    by blast
  have run: "\<exists>s2. run_task example_env (Task_insert_frames_into_timeline (Node 1) ?frames)
              (priv_insert_frames ?m) = Some s2
         \<and> doc_calls (doc s2)
             = [call_insert_layer (Node 1) ''[Recording] a cat'' None True (Some (Node 0)),
                call_enableAnimation (Node 1), call_setPinnedToTimeline (Node 1) True,
                call_set_current_time 0, call_process_events,
                call_set_layer_content (Node 1) (Image 1) (Bounds 0 0 512 512),
                call_trigger ''add_duplicate_frame'',
                call_hasKeyframeAtTime (Node 1) 0 False, call_hasKeyframeAtTime (Node 1) 0 True,
                call_set_current_time 1,
                call_set_layer_content (Node 1) (Image 2) (Bounds 0 0 512 512),
                call_trigger ''add_duplicate_frame'',
                call_hasKeyframeAtTime (Node 1) 1 True,
                call_set_current_time 2, call_set_end_time 2]
         \<and> doc_end_time (doc s2) = 2"
  proof (intro exI [of _ s2] conjI)
    show "run_task example_env (Task_insert_frames_into_timeline (Node 1) ?frames)
              (priv_insert_frames ?m) = Some s2"
      using s2(1) unfolding task1 by (simp del: run_task.simps)
    show "doc_calls (doc s2)
             = [call_insert_layer (Node 1) ''[Recording] a cat'' None True (Some (Node 0)),
                call_enableAnimation (Node 1), call_setPinnedToTimeline (Node 1) True,
                call_set_current_time 0, call_process_events,
                call_set_layer_content (Node 1) (Image 1) (Bounds 0 0 512 512),
                call_trigger ''add_duplicate_frame'',
                call_hasKeyframeAtTime (Node 1) 0 False, call_hasKeyframeAtTime (Node 1) 0 True,
                call_set_current_time 1,
                call_set_layer_content (Node 1) (Image 2) (Bounds 0 0 512 512),
                call_trigger ''add_duplicate_frame'',
                call_hasKeyframeAtTime (Node 1) 1 True,
                call_set_current_time 2, call_set_end_time 2]"
      unfolding s2(2) calls l1 k(1) k(4) d(4) by simp
    show "doc_end_time (doc s2) = 2"
      unfolding s2(3) k(1) k(4) d(4) by simp
  qed
  from t h obtain d1 where d1:
    "priv_insert_frames_into_timeline (Node 5) ?frames example_recording_doc = Some d1"
    "written_frames (drop (length (doc_calls example_recording_doc)) (doc_calls d1)) = ?frames"
    "cursor_positions (drop (length (doc_calls example_recording_doc)) (doc_calls d1))
       = map (\<lambda>k. doc_last_keyframe example_recording_doc (Node 5) + int k)
           [0..<Suc (length ?frames)]"
    "doc_current_time d1 = doc_last_keyframe example_recording_doc (Node 5) + int (length ?frames)"
    "doc_end_time d1 = doc_last_keyframe example_recording_doc (Node 5) + int (length ?frames)"
    by blast
  have first: "\<exists>d1. priv_insert_frames_into_timeline (Node 5) ?frames example_recording_doc
          = Some d1
      \<and> written_frames (doc_calls d1) = ?frames
      \<and> cursor_positions (doc_calls d1) = [0, 1, 2]
      \<and> doc_current_time d1 = 2 \<and> doc_end_time d1 = 2"
    using d1 d(1,4) by (intro exI [of _ d1]) (simp add: upt_rec [of 0] upt_rec [of 1] upt_rec [of 2])
  show ?thesis
    by (intro conjI) (fact k(1) k(3) buf task1 rl1 calls run first)+
qed

end
